theory Spec2Isabelle
  imports Complex_Main "HOL-Library.Product_Lexorder" "HOL-Library.Multiset"
begin

section \<open>Data model\<close>

text \<open>
  The recommendation controller (\<^verbatim>\<open>recommendation.controller.js\<close>) and the client of the
  external recommendation service (\<^verbatim>\<open>utils/recommendationService.js\<close>) are embedded
  here. An ObjectId is represented by its canonical string (what \<^verbatim>\<open>toString()\<close> yields),
  a date by an integer timestamp. The three collections the controller reads are lists of
  documents in collection order, and reading them succeeds.
\<close>

type_synonym objectId = string

record video =
  oid :: objectId
  owner :: objectId
  title :: string
  description :: string
  views :: int
  createdAt :: int
  isPublished :: bool

record user =
  uid :: objectId
  username :: string
  fullName :: string
  avatar :: string
  watchHistory :: "objectId list"

record like =
  likedBy :: objectId
  like_video :: "objectId option"

record database =
  videos :: "video list"
  users :: "user list"
  likes :: "like list"

text \<open>The owner sub-document left by \<^verbatim>\<open>$lookup\<close> with its \<^verbatim>\<open>$project\<close> pipeline.\<close>

record ownerInfo =
  owner_id :: objectId
  owner_username :: string
  owner_fullName :: string
  owner_avatar :: string

record populatedVideo =
  vdoc :: video
  vowner :: "ownerInfo option"

subsection \<open>Values that cross the wire\<close>

text \<open>
  Payloads the controller only hands on are kept as JSON values; \<open>truthy\<close> is JavaScript's
  conversion to a boolean, used by the test \<^verbatim>\<open>!result\<close>.
\<close>

datatype json =
    JNull
  | JBool bool
  | JNum real
  | JStr string
  | JArr "json list"
  | JObj "(string \<times> json) list"

fun truthy :: "json \<Rightarrow> bool" where
  "truthy JNull = False"
| "truthy (JBool b) = b"
| "truthy (JNum x) = (x \<noteq> 0)"
| "truthy (JStr s) = (s \<noteq> [])"
| "truthy (JArr xs) = True"
| "truthy (JObj kvs) = True"

text \<open>
  The two payloads the controller takes apart are typed at their wire shape. A body that is
  missing, null or otherwise counted as false by JavaScript is \<open>None\<close>. The list field of a
  body is \<open>Falsy\<close> when it is missing, null or otherwise counted as false, \<open>NotArray\<close> when
  it is a value counted as true that has no \<^verbatim>\<open>map\<close> method, and \<open>Array xs\<close> when it is an
  array, which JavaScript counts as true also when it is empty. The entries of an array are
  objects, and a video id in a payload is whatever string the service sent.
\<close>

datatype 'a arrayField = Falsy | NotArray | Array "'a list"

record scoredRecommendation =
  video_id :: string
  final_score :: real
  score_breakdown :: "(string \<times> real) list"

record personalizedData =
  recommendations :: "scoredRecommendation arrayField"
  watched_count :: "int option"
  liked_count :: "int option"

record similarityResult =
  sim_video_id :: string
  similarity_score :: real

record similarData =
  similar_videos :: "similarityResult arrayField"

record metadata =
  meta_views :: int
  created_at :: int

record personalizedBody =
  user_id :: objectId
  watched_video_ids :: "objectId list"
  liked_video_ids :: "objectId list"
  video_metadata :: "(objectId \<times> metadata) list"
  body_limit :: int
  exclude_video_ids :: "objectId list"

record syncVideo =
  sync_video_id :: objectId
  sync_title :: string
  sync_description :: string

subsection \<open>Errors and effects\<close>

text \<open>
  A thrown value is the left summand. \<open>ApiError\<close> is the controller's own error with its
  status code; \<open>AxiosError\<close> is a rejected HTTP call; \<open>MongoServerError\<close> is a pipeline the
  database refuses; \<open>BSONError\<close> is thrown by the ObjectId constructor, \<open>CastError\<close> by a
  query whose id cannot be cast, \<open>TypeError\<close> by a call of a method a value does not have.
  A handler also returns the list of HTTP calls it issued to the external service, in order.
\<close>

datatype jsError =
    ApiError int string
  | AxiosError string
  | MongoServerError string
  | BSONError string
  | CastError string
  | TypeError string

fun error_message :: "jsError \<Rightarrow> string" where
  "error_message (ApiError c m) = m"
| "error_message (AxiosError m) = m"
| "error_message (MongoServerError m) = m"
| "error_message (BSONError m) = m"
| "error_message (CastError m) = m"
| "error_message (TypeError m) = m"

datatype call =
    PostPersonalized personalizedBody
  | GetSimilar string int
  | PostBatch "syncVideo list"
  | PostSync "syncVideo list"
  | DeleteEmbedding objectId
  | GetHealth

type_synonym 'a io = "(jsError + 'a) \<times> call list"

text \<open>
  The external service, one function per endpoint of \<^verbatim>\<open>recommendationClient\<close>: the call
  either rejects (a timeout included) or resolves with the body \<^verbatim>\<open>response.data\<close>.
\<close>

record service =
  post_personalized :: "personalizedBody \<Rightarrow> jsError + personalizedData option"
  get_similar :: "string \<Rightarrow> int \<Rightarrow> jsError + similarData option"
  post_batch :: "syncVideo list \<Rightarrow> jsError + json"
  post_sync :: "syncVideo list \<Rightarrow> jsError + json"
  delete_embedding :: "objectId \<Rightarrow> jsError + json"
  get_health :: "jsError + json"

record 'd apiResponse =
  statusCode :: int
  data :: 'd
  message :: string

subsection \<open>ObjectIds that arrive as strings\<close>

text \<open>
  \<^verbatim>\<open>isValidObjectId\<close> and the constructor \<^verbatim>\<open>new mongoose.Types.ObjectId(id)\<close> are mongoose's
  and are parameters of the model. The constructor gives the ObjectId a string stands for
  (in this model its canonical string, so an accepted spelling that is not canonical is
  mapped to the canonical one) or throws, which is \<open>None\<close>. \<^verbatim>\<open>Video.findById\<close> casts its
  argument with the same constructor. An id read from the database is an ObjectId already:
  \<^verbatim>\<open>toString()\<close> followed by the constructor gives it back, so the ids of the exclusion
  list, which are read from the user's history and likes, enter the fallback pipeline as
  they are.
\<close>

record mongoose =
  isValidObjectId :: "string \<Rightarrow> bool"
  new_ObjectId :: "string \<Rightarrow> objectId option"

text \<open>\<^verbatim>\<open>ids.map(id => new mongoose.Types.ObjectId(id))\<close>: the first string refused throws.\<close>

fun map_ObjectId :: "mongoose \<Rightarrow> string list \<Rightarrow> jsError + objectId list" where
  "map_ObjectId mg [] = Inr []"
| "map_ObjectId mg (s # ss) =
     (case new_ObjectId mg s of
        None \<Rightarrow>
          Inl (BSONError
            ''input must be a 24 character hex string, 12 byte Uint8Array, or an integer'')
      | Some x \<Rightarrow>
          (case map_ObjectId mg ss of
             Inl e \<Rightarrow> Inl e
           | Inr xs \<Rightarrow> Inr (x # xs)))"

section \<open>The client of the external service\<close>

definition try_catch :: "jsError + 'a \<Rightarrow> (jsError \<Rightarrow> jsError + 'a) \<Rightarrow> jsError + 'a" where
  "try_catch body handler = (case body of Inl e \<Rightarrow> handler e | Inr v \<Rightarrow> Inr v)"

definition getPersonalizedRecommendations ::
  "service \<Rightarrow> objectId \<Rightarrow> objectId list \<Rightarrow> objectId list \<Rightarrow> (objectId \<times> metadata) list
     \<Rightarrow> int \<Rightarrow> objectId list \<Rightarrow> personalizedData option io" where
  "getPersonalizedRecommendations svc userId watchedVideoIds likedVideoIds videoMetadata
       limit excludeVideoIds =
     (let body = \<lparr>user_id = userId, watched_video_ids = watchedVideoIds,
                  liked_video_ids = likedVideoIds, video_metadata = videoMetadata,
                  body_limit = limit, exclude_video_ids = excludeVideoIds\<rparr>
      in (try_catch (post_personalized svc body) (\<lambda>error. Inr None),
          [PostPersonalized body]))"

definition getSimilarVideos :: "service \<Rightarrow> string \<Rightarrow> int \<Rightarrow> similarData option io" where
  "getSimilarVideos svc videoId limit =
     (try_catch (get_similar svc videoId limit) (\<lambda>error. Inr None),
      [GetSimilar videoId limit])"

definition submitBatchEmbeddings :: "service \<Rightarrow> syncVideo list \<Rightarrow> json io" where
  "submitBatchEmbeddings svc vs =
     (try_catch (post_batch svc vs) (\<lambda>error. Inr JNull), [PostBatch vs])"

definition syncEmbeddings :: "service \<Rightarrow> syncVideo list \<Rightarrow> json io" where
  "syncEmbeddings svc vs =
     (try_catch (post_sync svc vs) (\<lambda>error. Inr JNull), [PostSync vs])"

definition deleteEmbedding :: "service \<Rightarrow> objectId \<Rightarrow> json io" where
  "deleteEmbedding svc videoId =
     (try_catch (delete_embedding svc videoId) (\<lambda>error. Inr JNull),
      [DeleteEmbedding videoId])"

definition checkHealth :: "service \<Rightarrow> json io" where
  "checkHealth svc =
     (try_catch (get_health svc)
        (\<lambda>error. Inr (JObj [(''status'', JStr ''unhealthy''),
                             (''error'', JStr (error_message error))])),
      [GetHealth])"

section \<open>Aggregation stages\<close>

text \<open>
  \<^verbatim>\<open>$match\<close> keeps the documents that satisfy the condition, \<^verbatim>\<open>$sort\<close> orders by a key
  (descending fields are negated), \<^verbatim>\<open>$limit\<close> keeps a prefix and is refused by the
  database unless the count is positive, \<^verbatim>\<open>$lookup\<close> with \<^verbatim>\<open>$first\<close> replaces the owner
  reference by the first user with that id. The handlers pass \<^verbatim>\<open>parseInt(limit)\<close>; the model
  takes the parsed integer. MongoDB leaves the order of documents with equal sort keys open;
  \<open>sort_stage\<close> keeps them in collection order, and no general theorem below depends on
  that choice.
\<close>

definition match_stage :: "('a \<Rightarrow> bool) \<Rightarrow> 'a list \<Rightarrow> 'a list" where
  "match_stage cond docs = filter cond docs"

definition sort_stage :: "('a \<Rightarrow> 'k::linorder) \<Rightarrow> 'a list \<Rightarrow> 'a list" where
  "sort_stage key docs = sort_key key docs"

definition limit_stage :: "int \<Rightarrow> 'a list \<Rightarrow> jsError + 'a list" where
  "limit_stage n docs =
     (if n \<le> 0 then Inl (MongoServerError ''the limit must be positive'')
      else Inr (take (nat n) docs))"

definition lookupOwner :: "user list \<Rightarrow> video \<Rightarrow> populatedVideo" where
  "lookupOwner us v =
     \<lparr>vdoc = v,
      vowner = map_option
        (\<lambda>u. \<lparr>owner_id = uid u, owner_username = username u,
              owner_fullName = fullName u, owner_avatar = avatar u\<rparr>)
        (find (\<lambda>u. uid u = owner v) us)\<rparr>"

definition lookup_stage :: "user list \<Rightarrow> video list \<Rightarrow> populatedVideo list" where
  "lookup_stage us docs = map (lookupOwner us) docs"

text \<open>\<^verbatim>\<open>[...new Set(xs)]\<close>: the distinct elements in order of first occurrence.\<close>

definition spread_Set :: "'a list \<Rightarrow> 'a list" where
  "spread_Set xs = rev (remdups (rev xs))"

text \<open>\<^verbatim>\<open>new Map(pairs)\<close>: a later pair overwrites an earlier one with the same key.\<close>

definition new_Map :: "('k \<times> 'v) list \<Rightarrow> ('k \<rightharpoonup> 'v)" where
  "new_Map pairs = map_of (rev pairs)"

section \<open>Personalized recommendations\<close>

record scoredVideo =
  video :: "populatedVideo option"
  score :: real
  scoreBreakdown :: "(string \<times> real) list"

datatype recommendationsData =
    FallbackData "populatedVideo list" string
  | PersonalizedData "scoredVideo list" "int option" "int option"

fun fallback :: "recommendationsData \<Rightarrow> bool" where
  "fallback (FallbackData vs reason) = True"
| "fallback (PersonalizedData rs w l) = False"

definition popularFallback :: "database \<Rightarrow> int \<Rightarrow> recommendationsData apiResponse io" where
  "popularFallback db limit =
     (case limit_stage limit
             (sort_stage (\<lambda>v. (- views v, - createdAt v))
               (match_stage isPublished (videos db))) of
        Inl e \<Rightarrow> (Inl e, [])
      | Inr limited \<Rightarrow>
          (let popularVideos = lookup_stage (users db) limited
           in (Inr \<lparr>statusCode = 200,
                    data = FallbackData popularVideos
                      ''No user history available - showing popular videos'',
                    message = ''Popular videos fetched as fallback''\<rparr>, [])))"

definition serviceFallback ::
  "database \<Rightarrow> objectId list \<Rightarrow> int \<Rightarrow> call list \<Rightarrow> recommendationsData apiResponse io" where
  "serviceFallback db excludeVideoIds limit calls =
     (case limit_stage limit
             (sort_stage (\<lambda>v. (- views v, - createdAt v))
               (match_stage (\<lambda>v. isPublished v \<and> oid v \<notin> set excludeVideoIds)
                 (videos db))) of
        Inl e \<Rightarrow> (Inl e, calls)
      | Inr limited \<Rightarrow>
          (let fallbackVideos = lookup_stage (users db) limited
           in (Inr \<lparr>statusCode = 200,
                    data = FallbackData fallbackVideos
                      ''Recommendation service unavailable - using popularity fallback'',
                    message = ''Fallback recommendations fetched''\<rparr>, calls)))"

definition personalizedResults ::
  "mongoose \<Rightarrow> database \<Rightarrow> personalizedData \<Rightarrow> scoredRecommendation list \<Rightarrow> call list
     \<Rightarrow> recommendationsData apiResponse io" where
  "personalizedResults mg db response ranked calls =
     (let recommendedIds = map video_id ranked
      in case map_ObjectId mg recommendedIds of
           Inl e \<Rightarrow> (Inl e, calls)
         | Inr objectIds \<Rightarrow>
             (let found = lookup_stage (users db)
                    (match_stage (\<lambda>v. oid v \<in> set objectIds) (videos db));
                  videoMap = new_Map (map (\<lambda>v. (oid (vdoc v), v)) found);
                  orderedResults =
                    map (\<lambda>r. \<lparr>video = videoMap (video_id r), score = final_score r,
                              scoreBreakdown = score_breakdown r\<rparr>)
                      (filter (\<lambda>r. videoMap (video_id r) \<noteq> None) ranked)
              in (Inr \<lparr>statusCode = 200,
                       data = PersonalizedData orderedResults
                         (watched_count response) (liked_count response),
                       message = ''Personalized recommendations fetched successfully''\<rparr>,
                  calls)))"

definition watchedVideoIds :: "database \<Rightarrow> objectId \<Rightarrow> objectId list" where
  "watchedVideoIds db userId =
     (case find (\<lambda>u. uid u = userId) (users db) of
        None \<Rightarrow> [] | Some u \<Rightarrow> watchHistory u)"

definition likedVideoIds :: "database \<Rightarrow> objectId \<Rightarrow> objectId list" where
  "likedVideoIds db userId =
     (let likedDocs = filter (\<lambda>l. likedBy l = userId \<and> like_video l \<noteq> None) (likes db)
      in List.map_filter like_video likedDocs)"

definition getRecommendations ::
  "mongoose \<Rightarrow> database \<Rightarrow> service \<Rightarrow> objectId \<Rightarrow> int option
     \<Rightarrow> recommendationsData apiResponse io" where
  "getRecommendations mg db svc userId limitQuery =
     (let limit = (case limitQuery of None \<Rightarrow> 20 | Some n \<Rightarrow> n);
          watched = watchedVideoIds db userId;
          liked = likedVideoIds db userId
      in if length watched = 0 \<and> length liked = 0 then popularFallback db limit
         else
          (let excludeVideoIds = spread_Set (watched @ liked);
               allVideos = filter isPublished (videos db);
               videoMetadata =
                 map (\<lambda>v. (oid v, \<lparr>meta_views = views v, created_at = createdAt v\<rparr>))
                   allVideos
           in case getPersonalizedRecommendations svc userId watched liked
                     videoMetadata limit excludeVideoIds of
                (Inl e, calls) \<Rightarrow> (Inl e, calls)
              | (Inr None, calls) \<Rightarrow> serviceFallback db excludeVideoIds limit calls
              | (Inr (Some response), calls) \<Rightarrow>
                  (case recommendations response of
                     Falsy \<Rightarrow> serviceFallback db excludeVideoIds limit calls
                   | NotArray \<Rightarrow>
                       (Inl (TypeError
                          ''recommendations.recommendations.map is not a function''), calls)
                   | Array ranked \<Rightarrow> personalizedResults mg db response ranked calls)))"

section \<open>Similar videos\<close>

text \<open>
  The request parameter is a string. After \<^verbatim>\<open>isValidObjectId\<close> has accepted it,
  \<^verbatim>\<open>Video.findById\<close> casts it and looks the ObjectId up; the fallback pipeline builds the
  ObjectId once more for its \<^verbatim>\<open>$ne\<close>; the response and the call to the external service
  carry the string as it came.
\<close>

record similarVideo =
  sim_video :: "populatedVideo option"
  similarityScore :: real

datatype similarResults =
    SimilarFallback "populatedVideo list"
  | SimilarOrdered "similarVideo list"

record similarResponseData =
  sourceVideo :: string
  similarVideos :: similarResults
  sim_fallback :: bool

definition ownerFallback ::
  "mongoose \<Rightarrow> database \<Rightarrow> video \<Rightarrow> string \<Rightarrow> int \<Rightarrow> call list
     \<Rightarrow> similarResponseData apiResponse io" where
  "ownerFallback mg db source videoId limit calls =
     (case new_ObjectId mg videoId of
        None \<Rightarrow>
          (Inl (BSONError
             ''input must be a 24 character hex string, 12 byte Uint8Array, or an integer''),
           calls)
      | Some sourceId \<Rightarrow>
          (case limit_stage limit
                  (sort_stage (\<lambda>v. - views v)
                    (match_stage
                      (\<lambda>v. isPublished v \<and> oid v \<noteq> sourceId \<and> owner v = owner source)
                      (videos db))) of
             Inl e \<Rightarrow> (Inl e, calls)
           | Inr limited \<Rightarrow>
               (let fallbackVideos = lookup_stage (users db) limited
                in (Inr \<lparr>statusCode = 200,
                         data = \<lparr>sourceVideo = videoId,
                                 similarVideos = SimilarFallback fallbackVideos,
                                 sim_fallback = True\<rparr>,
                         message = ''Fallback similar videos fetched''\<rparr>, calls))))"

definition similarOrdered ::
  "mongoose \<Rightarrow> database \<Rightarrow> string \<Rightarrow> similarityResult list \<Rightarrow> call list
     \<Rightarrow> similarResponseData apiResponse io" where
  "similarOrdered mg db videoId ranked calls =
     (let similarIds = map sim_video_id ranked
      in case map_ObjectId mg similarIds of
           Inl e \<Rightarrow> (Inl e, calls)
         | Inr objectIds \<Rightarrow>
             (let found = lookup_stage (users db)
                    (match_stage (\<lambda>v. oid v \<in> set objectIds) (videos db));
                  videoMap = new_Map (map (\<lambda>v. (oid (vdoc v), v)) found);
                  orderedResults =
                    map (\<lambda>s. \<lparr>sim_video = videoMap (sim_video_id s),
                              similarityScore = similarity_score s\<rparr>)
                      (filter (\<lambda>s. videoMap (sim_video_id s) \<noteq> None) ranked)
              in (Inr \<lparr>statusCode = 200,
                       data = \<lparr>sourceVideo = videoId,
                               similarVideos = SimilarOrdered orderedResults,
                               sim_fallback = False\<rparr>,
                       message = ''Similar videos fetched successfully''\<rparr>, calls)))"

definition getSimilar ::
  "mongoose \<Rightarrow> database \<Rightarrow> service \<Rightarrow> string \<Rightarrow> int option
     \<Rightarrow> similarResponseData apiResponse io" where
  "getSimilar mg db svc videoId limitQuery =
     (let limit = (case limitQuery of None \<Rightarrow> 10 | Some n \<Rightarrow> n)
      in if \<not> isValidObjectId mg videoId then (Inl (ApiError 400 ''Invalid video ID''), [])
         else
          (case new_ObjectId mg videoId of
             None \<Rightarrow> (Inl (CastError ''Cast to ObjectId failed''), [])
           | Some sourceId \<Rightarrow>
               (case find (\<lambda>v. oid v = sourceId) (videos db) of
                  None \<Rightarrow> (Inl (ApiError 404 ''Video not found''), [])
                | Some source \<Rightarrow>
                    (case getSimilarVideos svc videoId limit of
                       (Inl e, calls) \<Rightarrow> (Inl e, calls)
                     | (Inr None, calls) \<Rightarrow> ownerFallback mg db source videoId limit calls
                     | (Inr (Some similarResult), calls) \<Rightarrow>
                         (case similar_videos similarResult of
                            Falsy \<Rightarrow> ownerFallback mg db source videoId limit calls
                          | NotArray \<Rightarrow>
                              (Inl (TypeError
                                 ''similarResult.similar_videos.map is not a function''),
                               calls)
                          | Array ranked \<Rightarrow> similarOrdered mg db videoId ranked calls)))))"

section \<open>Embedding sync and health\<close>

datatype syncData =
    NothingToSync int string
  | SyncResult json

definition syncVideoEmbeddings :: "database \<Rightarrow> service \<Rightarrow> syncData apiResponse io" where
  "syncVideoEmbeddings db svc =
     (let published = filter isPublished (videos db)
      in if length published = 0 then
           (Inr \<lparr>statusCode = 200, data = NothingToSync 0 ''No videos to sync'',
                 message = ''No videos available for sync''\<rparr>, [])
         else
          (let videosForSync =
                 map (\<lambda>v. \<lparr>sync_video_id = oid v, sync_title = title v,
                           sync_description = description v\<rparr>) published
           in case syncEmbeddings svc videosForSync of
                (Inl e, calls) \<Rightarrow> (Inl e, calls)
              | (Inr result, calls) \<Rightarrow>
                  if \<not> truthy result
                  then (Inl (ApiError 503 ''Recommendation service unavailable''), calls)
                  else (Inr \<lparr>statusCode = 200, data = SyncResult result,
                             message = ''Embeddings synced successfully''\<rparr>, calls)))"

section \<open>A small catalog for the worked scenarios\<close>

text \<open>
  User \<open>U1\<close> has watched \<open>V1\<close> and \<open>V2\<close> and liked \<open>V3\<close>; the catalog holds the published
  videos \<open>V5\<close>, \<open>V4\<close> and \<open>V1\<close> and the unpublished \<open>V8\<close>; \<open>V9\<close> is in no collection.
\<close>

definition demo_video :: "objectId \<Rightarrow> objectId \<Rightarrow> int \<Rightarrow> int \<Rightarrow> bool \<Rightarrow> video" where
  "demo_video i ow n t p =
     \<lparr>oid = i, owner = ow, title = ''title'', description = ''text'', views = n,
      createdAt = t, isPublished = p\<rparr>"

definition demo_db :: database where
  "demo_db =
     \<lparr>videos = [demo_video ''V5'' ''O1'' 50 1 True, demo_video ''V4'' ''O1'' 100 2 True,
                demo_video ''V1'' ''O2'' 500 3 True, demo_video ''V8'' ''O2'' 900 4 False],
      users = [\<lparr>uid = ''U1'', username = ''ann'', fullName = ''Ann'', avatar = ''a.png'',
                watchHistory = [''V1'', ''V2'']\<rparr>,
               \<lparr>uid = ''O1'', username = ''bob'', fullName = ''Bob'', avatar = ''b.png'',
                watchHistory = []\<rparr>],
      likes = [\<lparr>likedBy = ''U1'', like_video = Some ''V3''\<rparr>,
               \<lparr>likedBy = ''U1'', like_video = None\<rparr>]\<rparr>"

definition demo_db_V7 :: database where
  "demo_db_V7 = demo_db\<lparr>videos := videos demo_db @ [demo_video ''V7'' ''O2'' 70 5 True]\<rparr>"

definition svc_down :: service where
  "svc_down =
     \<lparr>post_personalized = (\<lambda>body. Inl (AxiosError ''timeout of 10000ms exceeded'')),
      get_similar = (\<lambda>videoId limit. Inl (AxiosError ''timeout of 10000ms exceeded'')),
      post_batch = (\<lambda>vs. Inl (AxiosError ''timeout of 10000ms exceeded'')),
      post_sync = (\<lambda>vs. Inl (AxiosError ''timeout of 10000ms exceeded'')),
      delete_embedding = (\<lambda>videoId. Inl (AxiosError ''timeout of 10000ms exceeded'')),
      get_health = Inl (AxiosError ''timeout of 10000ms exceeded'')\<rparr>"

definition svc_ranking :: "scoredRecommendation list \<Rightarrow> service" where
  "svc_ranking ranked =
     svc_down\<lparr>post_personalized :=
       (\<lambda>body. Inr (Some \<lparr>recommendations = Array ranked, watched_count = Some 2,
                           liked_count = Some 1\<rparr>))\<rparr>"

definition svc_similar :: "similarityResult list \<Rightarrow> service" where
  "svc_similar ranked =
     svc_down\<lparr>get_similar := (\<lambda>videoId limit. Inr (Some \<lparr>similar_videos = Array ranked\<rparr>))\<rparr>"

definition demo_ranked :: "scoredRecommendation list" where
  "demo_ranked =
     [\<lparr>video_id = ''V9'', final_score = 0.9, score_breakdown = []\<rparr>,
      \<lparr>video_id = ''V7'', final_score = 0.8, score_breakdown = [(''recency'', 0.5)]\<rparr>]"

definition demo_ranked_unpublished :: "scoredRecommendation list" where
  "demo_ranked_unpublished =
     [\<lparr>video_id = ''V9'', final_score = 0.9, score_breakdown = []\<rparr>,
      \<lparr>video_id = ''V8'', final_score = 0.8, score_breakdown = []\<rparr>]"

definition demo_body :: "database \<Rightarrow> int \<Rightarrow> personalizedBody" where
  "demo_body db limit =
     \<lparr>user_id = ''U1'', watched_video_ids = [''V1'', ''V2''], liked_video_ids = [''V3''],
      video_metadata =
        map (\<lambda>v. (oid v, \<lparr>meta_views = views v, created_at = createdAt v\<rparr>))
          (filter isPublished (videos db)),
      body_limit = limit, exclude_video_ids = [''V1'', ''V2'', ''V3'']\<rparr>"

text \<open>
  In the worked scenarios an ObjectId is a string of two characters. Its canonical form has
  the letter \<open>V\<close> in upper case; the constructor accepts the lower-case spelling too and
  refuses every string of another length.
\<close>

definition demo_mongoose :: mongoose where
  "demo_mongoose =
     \<lparr>isValidObjectId = (\<lambda>s. length s = 2),
      new_ObjectId = (\<lambda>s. if length s = 2
                          then Some (map (\<lambda>c. if c = CHR ''v'' then CHR ''V'' else c) s)
                          else None)\<rparr>"

definition demo_ranked_malformed :: "scoredRecommendation list" where
  "demo_ranked_malformed =
     [\<lparr>video_id = ''not-an-objectid'', final_score = 0.9, score_breakdown = []\<rparr>,
      \<lparr>video_id = ''V4'', final_score = 0.8, score_breakdown = []\<rparr>]"

definition svc_summary :: "json \<Rightarrow> service" where
  "svc_summary summary = svc_down\<lparr>post_sync := (\<lambda>vs. Inr summary)\<rparr>"

section \<open>Basic facts about the stages and the client\<close>

lemma try_catch_total: "try_catch body (\<lambda>e. Inr (h e)) = Inr (case body of Inl e \<Rightarrow> h e | Inr v \<Rightarrow> v)"
  by (simp add: try_catch_def split: sum.splits)

lemma client_personalized:
  "getPersonalizedRecommendations svc u w l m n ex =
     (Inr (case post_personalized svc
                 \<lparr>user_id = u, watched_video_ids = w, liked_video_ids = l,
                  video_metadata = m, body_limit = n, exclude_video_ids = ex\<rparr> of
             Inl e \<Rightarrow> None | Inr d \<Rightarrow> d),
      [PostPersonalized \<lparr>user_id = u, watched_video_ids = w, liked_video_ids = l,
                  video_metadata = m, body_limit = n, exclude_video_ids = ex\<rparr>])"
  by (simp add: getPersonalizedRecommendations_def try_catch_total Let_def)

lemma client_similar:
  "getSimilarVideos svc videoId limit =
     (Inr (case get_similar svc videoId limit of Inl e \<Rightarrow> None | Inr d \<Rightarrow> d),
      [GetSimilar videoId limit])"
  by (simp add: getSimilarVideos_def try_catch_total)

lemma limit_stage_pos: "0 < n \<Longrightarrow> limit_stage n docs = Inr (take (nat n) docs)"
  by (simp add: limit_stage_def)

lemma mset_sort_stage: "mset (sort_stage key docs) = mset docs"
  by (simp add: sort_stage_def)

lemma set_sort_stage: "set (sort_stage key docs) = set docs"
  by (simp add: sort_stage_def)

lemma distinct_sort_stage: "distinct (map f (sort_stage key docs)) = distinct (map f docs)"
proof -
  have "mset (map f (sort_stage key docs)) = mset (map f docs)"
    by (simp add: mset_sort_stage)
  then show ?thesis by (rule mset_eq_imp_distinct_iff)
qed

lemma vdoc_lookupOwner: "vdoc (lookupOwner us v) = v"
  by (simp add: lookupOwner_def)

lemma vdoc_lookup_stage: "map vdoc (lookup_stage us docs) = docs"
  by (simp add: lookup_stage_def lookupOwner_def comp_def)

lemma set_spread_Set: "set (spread_Set xs) = set xs"
  by (simp add: spread_Set_def)

lemma popularity_sorted:
  "sorted_wrt (\<lambda>a b. views b < views a \<or> (views a = views b \<and> createdAt b \<le> createdAt a))
     (sort_stage (\<lambda>v. (- views v, - createdAt v)) docs)"
proof -
  have "sorted (map (\<lambda>v. (- views v, - createdAt v)) (sort_stage (\<lambda>v. (- views v, - createdAt v)) docs))"
    unfolding sort_stage_def by (rule sorted_sort_key)
  then have "sorted_wrt (\<lambda>a b. (- views a, - createdAt a) \<le> (- views b, - createdAt b))
     (sort_stage (\<lambda>v. (- views v, - createdAt v)) docs)"
    by (simp only: sorted_map)
  then show ?thesis
    by (rule sorted_wrt_mono_rel[rotated]) auto
qed

lemma views_sorted:
  "sorted_wrt (\<lambda>a b. views b \<le> views a) (sort_stage (\<lambda>v. - views v) docs)"
proof -
  have "sorted (map (\<lambda>v. - views v) (sort_stage (\<lambda>v. - views v) docs))"
    unfolding sort_stage_def by (rule sorted_sort_key)
  then show ?thesis
    by (simp add: sorted_map)
qed

lemma popularFallback_pos:
  "0 < limit \<Longrightarrow> popularFallback db limit =
     (Inr \<lparr>statusCode = 200,
           data = FallbackData
             (lookup_stage (users db) (take (nat limit)
                (sort_stage (\<lambda>v. (- views v, - createdAt v)) (match_stage isPublished (videos db)))))
             ''No user history available - showing popular videos'',
           message = ''Popular videos fetched as fallback''\<rparr>, [])"
  by (simp add: popularFallback_def limit_stage_pos)

lemma serviceFallback_pos:
  "0 < limit \<Longrightarrow> serviceFallback db ex limit calls =
     (Inr \<lparr>statusCode = 200,
           data = FallbackData
             (lookup_stage (users db) (take (nat limit)
                (sort_stage (\<lambda>v. (- views v, - createdAt v))
                   (match_stage (\<lambda>v. isPublished v \<and> oid v \<notin> set ex) (videos db)))))
             ''Recommendation service unavailable - using popularity fallback'',
           message = ''Fallback recommendations fetched''\<rparr>, calls)"
  by (simp add: serviceFallback_def limit_stage_pos)

lemma ownerFallback_pos:
  "new_ObjectId mg videoId = Some sourceId \<Longrightarrow> 0 < limit \<Longrightarrow>
   ownerFallback mg db source videoId limit calls =
     (Inr \<lparr>statusCode = 200,
           data = \<lparr>sourceVideo = videoId,
                   similarVideos = SimilarFallback
                     (lookup_stage (users db) (take (nat limit)
                        (sort_stage (\<lambda>v. - views v)
                           (match_stage
                              (\<lambda>v. isPublished v \<and> oid v \<noteq> sourceId \<and> owner v = owner source)
                              (videos db))))),
                   sim_fallback = True\<rparr>,
           message = ''Fallback similar videos fetched''\<rparr>, calls)"
  by (simp add: ownerFallback_def limit_stage_pos)

lemma snd_serviceFallback: "snd (serviceFallback db ex limit calls) = calls"
  by (simp add: serviceFallback_def Let_def split: sum.splits)

lemma snd_personalizedResults: "snd (personalizedResults mg db response ranked calls) = calls"
  by (simp add: personalizedResults_def Let_def split: sum.splits)

section \<open>The paths through the personalized handler\<close>

lemma getRecommendations_history:
  assumes "watchedVideoIds db userId \<noteq> [] \<or> likedVideoIds db userId \<noteq> []"
    and "body = \<lparr>user_id = userId, watched_video_ids = watchedVideoIds db userId,
                 liked_video_ids = likedVideoIds db userId,
                 video_metadata =
                   map (\<lambda>v. (oid v, \<lparr>meta_views = views v, created_at = createdAt v\<rparr>))
                     (filter isPublished (videos db)),
                 body_limit = (case limitQuery of None \<Rightarrow> 20 | Some n \<Rightarrow> n),
                 exclude_video_ids =
                   spread_Set (watchedVideoIds db userId @ likedVideoIds db userId)\<rparr>"
  shows "getRecommendations mg db svc userId limitQuery =
       (case post_personalized svc body of
          Inl e \<Rightarrow> serviceFallback db (exclude_video_ids body) (body_limit body) [PostPersonalized body]
        | Inr None \<Rightarrow> serviceFallback db (exclude_video_ids body) (body_limit body) [PostPersonalized body]
        | Inr (Some response) \<Rightarrow>
            (case recommendations response of
               Falsy \<Rightarrow> serviceFallback db (exclude_video_ids body) (body_limit body) [PostPersonalized body]
             | NotArray \<Rightarrow>
                 (Inl (TypeError ''recommendations.recommendations.map is not a function''),
                  [PostPersonalized body])
             | Array ranked \<Rightarrow> personalizedResults mg db response ranked [PostPersonalized body]))"
proof (cases "watchedVideoIds db userId = [] \<and> likedVideoIds db userId = []")
  case True
  with assms(1) show ?thesis by simp
next
  case False
  then have ne: "\<not> (length (watchedVideoIds db userId) = 0 \<and> length (likedVideoIds db userId) = 0)"
    by simp
  show ?thesis
    unfolding getRecommendations_def Let_def if_not_P[OF ne] client_personalized assms(2)
    by (simp split: sum.splits option.splits arrayField.splits)
qed

lemma getRecommendations_cases:
  assumes "watchedVideoIds db userId \<noteq> [] \<or> likedVideoIds db userId \<noteq> []"
    and "snd (getRecommendations mg db svc userId limitQuery) = [PostPersonalized body]"
  shows "getRecommendations mg db svc userId limitQuery =
       (case post_personalized svc body of
          Inl e \<Rightarrow> serviceFallback db (spread_Set (watchedVideoIds db userId @ likedVideoIds db userId))
                     (case limitQuery of None \<Rightarrow> 20 | Some n \<Rightarrow> n) [PostPersonalized body]
        | Inr None \<Rightarrow> serviceFallback db (spread_Set (watchedVideoIds db userId @ likedVideoIds db userId))
                     (case limitQuery of None \<Rightarrow> 20 | Some n \<Rightarrow> n) [PostPersonalized body]
        | Inr (Some response) \<Rightarrow>
            (case recommendations response of
               Falsy \<Rightarrow> serviceFallback db (spread_Set (watchedVideoIds db userId @ likedVideoIds db userId))
                     (case limitQuery of None \<Rightarrow> 20 | Some n \<Rightarrow> n) [PostPersonalized body]
             | NotArray \<Rightarrow>
                 (Inl (TypeError ''recommendations.recommendations.map is not a function''),
                  [PostPersonalized body])
             | Array ranked \<Rightarrow> personalizedResults mg db response ranked [PostPersonalized body]))"
proof -
  let ?b = "\<lparr>user_id = userId, watched_video_ids = watchedVideoIds db userId,
                 liked_video_ids = likedVideoIds db userId,
                 video_metadata =
                   map (\<lambda>v. (oid v, \<lparr>meta_views = views v, created_at = createdAt v\<rparr>))
                     (filter isPublished (videos db)),
                 body_limit = (case limitQuery of None \<Rightarrow> 20 | Some n \<Rightarrow> n),
                 exclude_video_ids =
                   spread_Set (watchedVideoIds db userId @ likedVideoIds db userId)\<rparr>"
  note h = getRecommendations_history[OF assms(1) refl]
  have "snd (getRecommendations mg db svc userId limitQuery) = [PostPersonalized ?b]"
    unfolding h
    by (simp add: snd_serviceFallback snd_personalizedResults split: sum.splits option.splits arrayField.splits)
  with assms(2) have eq: "body = ?b" by simp
  show ?thesis unfolding eq h by (simp split: sum.splits option.splits arrayField.splits)
qed

lemma no_history_no_call:
  assumes "watchedVideoIds db userId = []" and "likedVideoIds db userId = []"
  shows "snd (getRecommendations mg db svc userId limitQuery) = []"
  using assms by (simp add: getRecommendations_def popularFallback_def Let_def split: sum.splits)

lemma call_made_history:
  assumes "snd (getRecommendations mg db svc userId limitQuery) = [PostPersonalized body]"
  shows "watchedVideoIds db userId \<noteq> [] \<or> likedVideoIds db userId \<noteq> []"
  using assms no_history_no_call[of db userId mg svc limitQuery] by auto

section \<open>The re-join of the ranked list with the catalog\<close>

lemma videoMap_Some:
  assumes "new_Map (map (\<lambda>v. (oid (vdoc v), v))
             (lookup_stage us (match_stage cond docs))) k = Some pv"
  shows "\<exists>v \<in> set docs. oid v = k \<and> pv = lookupOwner us v"
proof -
  from assms have "(k, pv) \<in> set (map (\<lambda>v. (oid (vdoc v), v))
             (lookup_stage us (match_stage cond docs)))"
    unfolding new_Map_def by (metis map_of_SomeD set_rev)
  then show ?thesis
    by (auto simp add: lookup_stage_def match_stage_def vdoc_lookupOwner)
qed

lemma videoMap_defined:
  "(new_Map (map (\<lambda>v. (oid (vdoc v), v))
       (lookup_stage us (match_stage (\<lambda>v. oid v \<in> S) docs))) k \<noteq> None)
   = (k \<in> S \<and> k \<in> oid ` set docs)"
  unfolding new_Map_def map_of_eq_None_iff
  by (auto simp add: lookup_stage_def match_stage_def vdoc_lookupOwner image_iff)

lemma map_ObjectId_Inr:
  "map_ObjectId mg ss = Inr xs \<Longrightarrow> map (new_ObjectId mg) ss = map Some xs"
  by (induction ss arbitrary: xs) (auto split: option.splits sum.splits)

lemma map_ObjectId_accepts:
  "\<forall>s \<in> set ss. new_ObjectId mg s \<noteq> None \<Longrightarrow> \<exists>xs. map_ObjectId mg ss = Inr xs"
  by (induction ss) (auto split: option.splits sum.splits)

lemma map_ObjectId_member:
  assumes "map_ObjectId mg ss = Inr xs" and "s \<in> set ss" and "new_ObjectId mg s = Some x"
  shows "x \<in> set xs"
proof -
  from assms(2,3) have "Some x \<in> set (map (new_ObjectId mg) ss)"
    by force
  then show ?thesis
    unfolding map_ObjectId_Inr[OF assms(1)] by auto
qed

lemma personalizedResults_throws:
  "map_ObjectId mg (map video_id ranked) = Inl e \<Longrightarrow>
   personalizedResults mg db response ranked calls = (Inl e, calls)"
  by (simp add: personalizedResults_def)

lemma personalizedResults_shape:
  assumes "map_ObjectId mg (map video_id ranked) = Inr objectIds"
  shows "\<exists>out. personalizedResults mg db response ranked calls =
       (Inr \<lparr>statusCode = 200,
             data = PersonalizedData out (watched_count response) (liked_count response),
             message = ''Personalized recommendations fetched successfully''\<rparr>, calls)
     \<and> list_all2
          (\<lambda>e r. score e = final_score r \<and> scoreBreakdown e = score_breakdown r
             \<and> (\<exists>v \<in> set (videos db).
                   oid v = video_id r \<and> video e = Some (lookupOwner (users db) v)))
          out (filter (\<lambda>r. video_id r \<in> set objectIds \<and> video_id r \<in> oid ` set (videos db))
                 ranked)"
proof -
  let ?videoMap = "new_Map (map (\<lambda>v. (oid (vdoc v), v))
       (lookup_stage (users db)
          (match_stage (\<lambda>v. oid v \<in> set objectIds) (videos db))))"
  let ?attach = "\<lambda>r. \<lparr>video = ?videoMap (video_id r), score = final_score r,
                      scoreBreakdown = score_breakdown r\<rparr>"
  let ?kept = "filter (\<lambda>r. video_id r \<in> set objectIds \<and> video_id r \<in> oid ` set (videos db))
                 ranked"
  have kept: "filter (\<lambda>r. ?videoMap (video_id r) \<noteq> None) ranked = ?kept"
    by (simp only: videoMap_defined)
  have "list_all2
          (\<lambda>e r. score e = final_score r \<and> scoreBreakdown e = score_breakdown r
             \<and> (\<exists>v \<in> set (videos db).
                   oid v = video_id r \<and> video e = Some (lookupOwner (users db) v)))
          (map ?attach ?kept) ?kept"
  proof (simp only: list_all2_map1, rule list_all2_same[THEN iffD2], intro ballI)
    fix r assume "r \<in> set ?kept"
    then have "video_id r \<in> set objectIds \<and> video_id r \<in> oid ` set (videos db)"
      by simp
    then have "?videoMap (video_id r) \<noteq> None"
      by (simp only: videoMap_defined simp_thms)
    then obtain pv where pv: "?videoMap (video_id r) = Some pv" by blast
    from videoMap_Some[OF pv] obtain v where "v \<in> set (videos db)" "oid v = video_id r"
      "pv = lookupOwner (users db) v" by blast
    with pv show "score (?attach r) = final_score r \<and> scoreBreakdown (?attach r) = score_breakdown r
             \<and> (\<exists>v \<in> set (videos db).
                   oid v = video_id r \<and> video (?attach r) = Some (lookupOwner (users db) v))"
      by auto
  qed
  moreover have "personalizedResults mg db response ranked calls =
       (Inr \<lparr>statusCode = 200,
             data = PersonalizedData (map ?attach ?kept) (watched_count response) (liked_count response),
             message = ''Personalized recommendations fetched successfully''\<rparr>, calls)"
    unfolding personalizedResults_def Let_def assms sum.case kept ..
  ultimately show ?thesis by blast
qed

lemma list_all2_map_eq:
  "list_all2 (\<lambda>x y. f x = g y) xs ys \<Longrightarrow> map f xs = map g ys"
  by (induction rule: list_all2_induct) auto

lemma personalizedResults_bounds:
  assumes "personalizedResults mg db response ranked cs = (Inr resp, calls)"
    and "data resp = PersonalizedData out w l"
    and "distinct (map video_id ranked)" and "int (length ranked) \<le> limit"
  shows "distinct (map (map_option (oid \<circ> vdoc) \<circ> video) out) \<and> int (length out) \<le> limit"
proof -
  from assms(1) obtain objectIds where cast: "map_ObjectId mg (map video_id ranked) = Inr objectIds"
    by (cases "map_ObjectId mg (map video_id ranked)") (auto simp add: personalizedResults_throws)
  let ?kept = "filter (\<lambda>r. video_id r \<in> set objectIds \<and> video_id r \<in> oid ` set (videos db))
                 ranked"
  from personalizedResults_shape[OF cast, of db response cs] assms(1,2)
  have rel: "list_all2
          (\<lambda>e r. score e = final_score r \<and> scoreBreakdown e = score_breakdown r
             \<and> (\<exists>v \<in> set (videos db).
                   oid v = video_id r \<and> video e = Some (lookupOwner (users db) v)))
          out ?kept"
    by auto
  then have "list_all2 (\<lambda>e r. (map_option (oid \<circ> vdoc) \<circ> video) e = (Some \<circ> video_id) r) out ?kept"
    by (rule list_all2_mono) (auto simp add: vdoc_lookupOwner)
  then have ids: "map (map_option (oid \<circ> vdoc) \<circ> video) out = map (Some \<circ> video_id) ?kept"
    by (rule list_all2_map_eq)
  have "distinct (map video_id ?kept)"
    using assms(3) by (rule distinct_map_filter)
  moreover have "\<And>xs :: string list. distinct xs \<Longrightarrow> distinct (map Some xs)"
    by (simp add: distinct_map inj_on_def)
  ultimately have "distinct (map Some (map video_id ?kept))"
    by blast
  then have "distinct (map (map_option (oid \<circ> vdoc) \<circ> video) out)"
    unfolding ids by simp
  moreover have "length out = length ?kept"
    using rel by (rule list_all2_lengthD)
  moreover have "length ?kept \<le> length ranked" by simp
  ultimately show ?thesis using assms(4) by linarith
qed

text \<open>
  When the constructor accepts every id of the payload and gives back the ids of the
  collection unchanged, an entry passes the re-join exactly when its id is the id of a
  video of the collection.
\<close>

lemma rejoin_keeps_collection_ids:
  assumes "map_ObjectId mg (map video_id ranked) = Inr objectIds"
    and "\<forall>v \<in> set (videos db). new_ObjectId mg (oid v) = Some (oid v)"
  shows "filter (\<lambda>r. video_id r \<in> set objectIds \<and> video_id r \<in> oid ` set (videos db)) ranked
       = filter (\<lambda>r. video_id r \<in> oid ` set (videos db)) ranked"
proof (rule filter_cong[OF refl])
  fix r assume r: "r \<in> set ranked"
  show "(video_id r \<in> set objectIds \<and> video_id r \<in> oid ` set (videos db))
      = (video_id r \<in> oid ` set (videos db))"
  proof (cases "video_id r \<in> oid ` set (videos db)")
    case True
    with assms(2) have "new_ObjectId mg (video_id r) = Some (video_id r)"
      by auto
    moreover from r have "video_id r \<in> set (map video_id ranked)"
      by simp
    ultimately have "video_id r \<in> set objectIds"
      using map_ObjectId_member[OF assms(1)] by blast
    with True show ?thesis by simp
  next
    case False
    then show ?thesis by simp
  qed
qed

section \<open>The popularity fallbacks\<close>

lemma serviceFallback_excludes:
  assumes "serviceFallback db ex limit calls = (Inr resp, calls')"
    and "data resp = FallbackData out reason"
  shows "\<forall>pv \<in> set out. oid (vdoc pv) \<notin> set ex \<and> isPublished (vdoc pv)"
proof -
  from assms(1) have pos: "0 < limit"
    by (auto simp add: serviceFallback_def limit_stage_def split: if_splits)
  from assms have out: "out = lookup_stage (users db) (take (nat limit)
                (sort_stage (\<lambda>v. (- views v, - createdAt v))
                   (match_stage (\<lambda>v. isPublished v \<and> oid v \<notin> set ex) (videos db))))"
    by (auto simp add: serviceFallback_pos[OF pos])
  have "set (map vdoc out) \<subseteq> set (match_stage (\<lambda>v. isPublished v \<and> oid v \<notin> set ex) (videos db))"
    unfolding out vdoc_lookup_stage
    using set_take_subset[of "nat limit"] by (fastforce simp add: set_sort_stage)
  then show ?thesis by (auto simp add: match_stage_def)
qed

lemma fallback_list_bounds:
  assumes "distinct (map oid docs)" and "0 < limit"
  shows "distinct (map (oid \<circ> vdoc) (lookup_stage us (take (nat limit) (sort_stage key (match_stage cond docs)))))
     \<and> int (length (lookup_stage us (take (nat limit) (sort_stage key (match_stage cond docs))))) \<le> limit"
proof -
  let ?ranking = "sort_stage key (match_stage cond docs)"
  have "distinct (map oid (match_stage cond docs))"
    using assms(1) by (simp add: match_stage_def distinct_map_filter)
  then have "distinct (map oid ?ranking)"
    by (simp add: distinct_sort_stage)
  then have "distinct (take (nat limit) (map oid ?ranking))"
    by (rule distinct_take)
  then have "distinct (map oid (map vdoc (lookup_stage us (take (nat limit) ?ranking))))"
    by (simp add: vdoc_lookup_stage take_map)
  moreover have "int (length (lookup_stage us (take (nat limit) ?ranking))) \<le> limit"
    using assms(2) by (simp add: lookup_stage_def)
  ultimately show ?thesis by simp
qed

lemma popularFallback_bounds:
  assumes "popularFallback db limit = (Inr resp, calls)"
    and "data resp = FallbackData out reason" and "distinct (map oid (videos db))"
  shows "distinct (map (oid \<circ> vdoc) out) \<and> int (length out) \<le> limit"
proof -
  from assms(1) have pos: "0 < limit"
    by (auto simp add: popularFallback_def limit_stage_def split: if_splits)
  from assms(1,2) have "out = lookup_stage (users db) (take (nat limit)
      (sort_stage (\<lambda>v. (- views v, - createdAt v)) (match_stage isPublished (videos db))))"
    by (auto simp add: popularFallback_pos[OF pos])
  then show ?thesis using fallback_list_bounds[OF assms(3) pos] by simp
qed

lemma serviceFallback_bounds:
  assumes "serviceFallback db ex limit cs = (Inr resp, calls)"
    and "data resp = FallbackData out reason" and "distinct (map oid (videos db))"
  shows "distinct (map (oid \<circ> vdoc) out) \<and> int (length out) \<le> limit"
proof -
  from assms(1) have pos: "0 < limit"
    by (auto simp add: serviceFallback_def limit_stage_def split: if_splits)
  from assms(1,2) have "out = lookup_stage (users db) (take (nat limit)
      (sort_stage (\<lambda>v. (- views v, - createdAt v))
         (match_stage (\<lambda>v. isPublished v \<and> oid v \<notin> set ex) (videos db))))"
    by (auto simp add: serviceFallback_pos[OF pos])
  then show ?thesis using fallback_list_bounds[OF assms(3) pos] by simp
qed

section \<open>What the similar-videos paths return\<close>

lemma map_ObjectId_Inl:
  "map_ObjectId mg ss = Inl e \<Longrightarrow>
   e = BSONError ''input must be a 24 character hex string, 12 byte Uint8Array, or an integer''"
  by (induction ss) (auto split: option.splits sum.splits)

lemma ownerFallback_result:
  "snd (ownerFallback mg db source videoId limit calls) = calls"
  "fst (ownerFallback mg db source videoId limit calls) \<noteq> Inl (ApiError c m)"
  by (auto simp add: ownerFallback_def limit_stage_def Let_def split: option.splits)

lemma similarOrdered_result:
  "snd (similarOrdered mg db videoId ranked calls) = calls"
  "fst (similarOrdered mg db videoId ranked calls) \<noteq> Inl (ApiError c m)"
  by (auto simp add: similarOrdered_def Let_def split: sum.splits dest: map_ObjectId_Inl)

section \<open>Runs on the worked scenarios\<close>

text \<open>The definitions a run of a handler on the worked scenarios unfolds.\<close>

lemmas handler_defs =
  getRecommendations_def popularFallback_def serviceFallback_def personalizedResults_def
  getSimilar_def ownerFallback_def similarOrdered_def syncVideoEmbeddings_def
  getPersonalizedRecommendations_def getSimilarVideos_def syncEmbeddings_def try_catch_def
  match_stage_def sort_stage_def limit_stage_def lookup_stage_def lookupOwner_def
  spread_Set_def new_Map_def watchedVideoIds_def likedVideoIds_def List.map_filter_def Let_def

lemmas demo_defs =
  demo_db_def demo_db_V7_def demo_video_def svc_down_def svc_ranking_def svc_summary_def
  demo_ranked_def demo_ranked_unpublished_def demo_ranked_malformed_def demo_body_def
  demo_mongoose_def svc_similar_def

lemma demo_history:
  "watchedVideoIds demo_db ''U1'' = [''V1'', ''V2'']"
  "likedVideoIds demo_db ''U1'' = [''V3'']"
  "watchedVideoIds demo_db_V7 ''U1'' = [''V1'', ''V2'']"
  "likedVideoIds demo_db_V7 ''U1'' = [''V3'']"
  "watchedVideoIds demo_db ''U9'' = []"
  "likedVideoIds demo_db ''U9'' = []"
  by (simp_all add: demo_defs watchedVideoIds_def likedVideoIds_def List.map_filter_def)

lemma demo_service_down:
  "getRecommendations demo_mongoose demo_db svc_down ''U1'' (Some 10) =
     (Inr \<lparr>statusCode = 200,
           data = FallbackData
             [\<lparr>vdoc = demo_video ''V4'' ''O1'' 100 2 True,
               vowner = Some \<lparr>owner_id = ''O1'', owner_username = ''bob'',
                              owner_fullName = ''Bob'', owner_avatar = ''b.png''\<rparr>\<rparr>,
              \<lparr>vdoc = demo_video ''V5'' ''O1'' 50 1 True,
               vowner = Some \<lparr>owner_id = ''O1'', owner_username = ''bob'',
                              owner_fullName = ''Bob'', owner_avatar = ''b.png''\<rparr>\<rparr>]
             ''Recommendation service unavailable - using popularity fallback'',
           message = ''Fallback recommendations fetched''\<rparr>,
      [PostPersonalized (demo_body demo_db 10)])"
  by (simp add: handler_defs demo_defs)

lemma demo_rejoin:
  "getRecommendations demo_mongoose demo_db_V7 (svc_ranking demo_ranked) ''U1'' (Some 2) =
     (Inr \<lparr>statusCode = 200,
           data = PersonalizedData
             [\<lparr>video = Some \<lparr>vdoc = demo_video ''V7'' ''O2'' 70 5 True, vowner = None\<rparr>,
               score = 0.8, scoreBreakdown = [(''recency'', 0.5)]\<rparr>]
             (Some 2) (Some 1),
           message = ''Personalized recommendations fetched successfully''\<rparr>,
      [PostPersonalized (demo_body demo_db_V7 2)])"
  by (simp add: handler_defs demo_defs)

text \<open>
  The success path does not truncate: asked for one recommendation and given a ranked list
  of two videos of the collection, the handler returns both.
\<close>

lemma success_path_not_truncated:
  "getRecommendations demo_mongoose demo_db
       (svc_ranking [\<lparr>video_id = ''V4'', final_score = 0.9, score_breakdown = []\<rparr>,
                     \<lparr>video_id = ''V5'', final_score = 0.8, score_breakdown = []\<rparr>])
       ''U1'' (Some 1) =
     (Inr \<lparr>statusCode = 200,
           data = PersonalizedData
             [\<lparr>video = Some (lookupOwner (users demo_db) (demo_video ''V4'' ''O1'' 100 2 True)),
               score = 0.9, scoreBreakdown = []\<rparr>,
              \<lparr>video = Some (lookupOwner (users demo_db) (demo_video ''V5'' ''O1'' 50 1 True)),
               score = 0.8, scoreBreakdown = []\<rparr>]
             (Some 2) (Some 1),
           message = ''Personalized recommendations fetched successfully''\<rparr>,
      [PostPersonalized (demo_body demo_db 1)])"
  by (simp add: handler_defs demo_defs)

text \<open>
  The constructor of the worked scenarios accepts the ids of both catalogs unchanged.
\<close>

lemma demo_canonical:
  "\<forall>v \<in> set (videos demo_db). new_ObjectId demo_mongoose (oid v) = Some (oid v)"
  "\<forall>v \<in> set (videos demo_db_V7). new_ObjectId demo_mongoose (oid v) = Some (oid v)"
  by (simp_all add: demo_defs)

section \<open>Claims\<close>

text \<open>
  C1 (as amended). Let the external call have resolved with a payload whose
  \<^verbatim>\<open>recommendations\<close> is an array, let the ObjectId constructor accept every
  \<^verbatim>\<open>video_id\<close> of it, and let it give back the ids of the collection unchanged. Then the
  handler answers on the success path, and its output is the ranked list with some entries
  dropped: same order, nothing re-inserted, nothing added to reach the limit. An entry whose
  id is the id of no video of the collection is dropped, an entry whose id is the id of a
  published video stays, and each entry that stays carries its own \<^verbatim>\<open>final_score\<close> and
  \<^verbatim>\<open>score_breakdown\<close> and a video of that id. What becomes of an entry that names an
  unpublished video is the subject of C4 and is left open here.
\<close>

theorem ranked_order_preserved:
  assumes "snd (getRecommendations mg db svc userId limitQuery) = [PostPersonalized body]"
    and "post_personalized svc body = Inr (Some response)"
    and "recommendations response = Array ranked"
    and "\<forall>r \<in> set ranked. new_ObjectId mg (video_id r) \<noteq> None"
    and "\<forall>v \<in> set (videos db). new_ObjectId mg (oid v) = Some (oid v)"
  shows "\<exists>out keep. getRecommendations mg db svc userId limitQuery =
       (Inr \<lparr>statusCode = 200,
             data = PersonalizedData out (watched_count response) (liked_count response),
             message = ''Personalized recommendations fetched successfully''\<rparr>,
        [PostPersonalized body])
     \<and> (\<forall>r \<in> set ranked. video_id r \<notin> oid ` set (videos db) \<longrightarrow> \<not> keep r)
     \<and> (\<forall>r \<in> set ranked.
           (\<exists>v \<in> set (videos db). isPublished v \<and> oid v = video_id r) \<longrightarrow> keep r)
     \<and> list_all2
          (\<lambda>e r. score e = final_score r \<and> scoreBreakdown e = score_breakdown r
             \<and> (\<exists>v \<in> set (videos db).
                   oid v = video_id r \<and> video e = Some (lookupOwner (users db) v)))
          out (filter keep ranked)"
proof -
  let ?keep = "\<lambda>r. video_id r \<in> oid ` set (videos db)"
  have run: "getRecommendations mg db svc userId limitQuery =
          personalizedResults mg db response ranked [PostPersonalized body]"
    using getRecommendations_cases[OF call_made_history[OF assms(1)] assms(1)] assms(2,3)
    by simp
  from assms(4) have "\<forall>s \<in> set (map video_id ranked). new_ObjectId mg s \<noteq> None"
    by simp
  then obtain objectIds where cast: "map_ObjectId mg (map video_id ranked) = Inr objectIds"
    using map_ObjectId_accepts by blast
  from personalizedResults_shape[OF cast, of db response "[PostPersonalized body]"]
  obtain out where out:
    "personalizedResults mg db response ranked [PostPersonalized body] =
       (Inr \<lparr>statusCode = 200,
             data = PersonalizedData out (watched_count response) (liked_count response),
             message = ''Personalized recommendations fetched successfully''\<rparr>,
        [PostPersonalized body])"
    "list_all2
          (\<lambda>e r. score e = final_score r \<and> scoreBreakdown e = score_breakdown r
             \<and> (\<exists>v \<in> set (videos db).
                   oid v = video_id r \<and> video e = Some (lookupOwner (users db) v)))
          out (filter ?keep ranked)"
    unfolding rejoin_keeps_collection_ids[OF cast assms(5)] by (elim exE conjE) blast
  have dropped: "\<forall>r \<in> set ranked. video_id r \<notin> oid ` set (videos db) \<longrightarrow> \<not> ?keep r"
    by simp
  have kept: "\<forall>r \<in> set ranked.
           (\<exists>v \<in> set (videos db). isPublished v \<and> oid v = video_id r) \<longrightarrow> ?keep r"
    by force
  show ?thesis
    unfolding run
    by (rule exI[of _ out], rule exI[of _ ?keep], intro conjI)
       (rule out(1), rule dropped, rule kept, rule out(2))
qed

theorem ranked_order_preserved_witness:
  "snd (getRecommendations demo_mongoose demo_db_V7 (svc_ranking demo_ranked) ''U1'' (Some 2))
     = [PostPersonalized (demo_body demo_db_V7 2)]
   \<and> post_personalized (svc_ranking demo_ranked) (demo_body demo_db_V7 2)
     = Inr (Some \<lparr>recommendations = Array demo_ranked, watched_count = Some 2,
                  liked_count = Some 1\<rparr>)
   \<and> new_ObjectId demo_mongoose ''V9'' = Some ''V9''
   \<and> new_ObjectId demo_mongoose ''V7'' = Some ''V7''
   \<and> ''V9'' \<notin> oid ` set (videos demo_db_V7)
   \<and> find (\<lambda>v. oid v = ''V7'') (videos demo_db_V7) = Some (demo_video ''V7'' ''O2'' 70 5 True)
   \<and> (\<exists>out. getRecommendations demo_mongoose demo_db_V7 (svc_ranking demo_ranked) ''U1'' (Some 2) =
         (Inr \<lparr>statusCode = 200, data = PersonalizedData out (Some 2) (Some 1),
               message = ''Personalized recommendations fetched successfully''\<rparr>,
          [PostPersonalized (demo_body demo_db_V7 2)])
        \<and> length out = 1)"
proof -
  let ?payload = "\<lparr>recommendations = Array demo_ranked, watched_count = Some 2,
                   liked_count = Some 1\<rparr>"
  let ?r9 = "\<lparr>video_id = ''V9'', final_score = 0.9, score_breakdown = []\<rparr>"
  let ?r7 = "\<lparr>video_id = ''V7'', final_score = 0.8, score_breakdown = [(''recency'', 0.5)]\<rparr>"
  have call: "snd (getRecommendations demo_mongoose demo_db_V7 (svc_ranking demo_ranked) ''U1'' (Some 2))
     = [PostPersonalized (demo_body demo_db_V7 2)]"
    by (simp add: demo_rejoin)
  have answer: "post_personalized (svc_ranking demo_ranked) (demo_body demo_db_V7 2)
     = Inr (Some ?payload)"
    by (simp add: svc_ranking_def svc_down_def)
  have field: "recommendations ?payload = Array demo_ranked"
    by simp
  have accepted: "\<forall>r \<in> set demo_ranked. new_ObjectId demo_mongoose (video_id r) \<noteq> None"
    by (simp add: demo_defs)
  have ctor: "new_ObjectId demo_mongoose ''V9'' = Some ''V9''"
    "new_ObjectId demo_mongoose ''V7'' = Some ''V7''"
    by (simp_all add: demo_defs)
  have absent: "''V9'' \<notin> oid ` set (videos demo_db_V7)"
    by (simp add: demo_defs)
  have present: "find (\<lambda>v. oid v = ''V7'') (videos demo_db_V7)
                   = Some (demo_video ''V7'' ''O2'' 70 5 True)"
    by (simp add: demo_defs)
  have published: "\<exists>v \<in> set (videos demo_db_V7). isPublished v \<and> oid v = ''V7''"
    by (simp add: demo_defs)
  have ranked: "demo_ranked = [?r9, ?r7]"
    by (simp add: demo_ranked_def)
  from ranked_order_preserved[OF call answer field accepted demo_canonical(2)]
  obtain out keep where out:
    "getRecommendations demo_mongoose demo_db_V7 (svc_ranking demo_ranked) ''U1'' (Some 2) =
       (Inr \<lparr>statusCode = 200,
             data = PersonalizedData out (watched_count ?payload) (liked_count ?payload),
             message = ''Personalized recommendations fetched successfully''\<rparr>,
        [PostPersonalized (demo_body demo_db_V7 2)])"
    and dropped: "\<forall>r \<in> set demo_ranked. video_id r \<notin> oid ` set (videos demo_db_V7) \<longrightarrow> \<not> keep r"
    and kept: "\<forall>r \<in> set demo_ranked.
           (\<exists>v \<in> set (videos demo_db_V7). isPublished v \<and> oid v = video_id r) \<longrightarrow> keep r"
    and rel: "list_all2
       (\<lambda>e r. score e = final_score r \<and> scoreBreakdown e = score_breakdown r
          \<and> (\<exists>v \<in> set (videos demo_db_V7).
                oid v = video_id r \<and> video e = Some (lookupOwner (users demo_db_V7) v)))
       out (filter keep demo_ranked)"
    by (elim exE conjE) blast
  from dropped absent have "\<not> keep ?r9"
    unfolding ranked by simp
  moreover from kept published have "keep ?r7"
    unfolding ranked by simp
  ultimately have "filter keep demo_ranked = [?r7]"
    unfolding ranked by simp
  with rel have "length out = 1"
    by (simp add: list_all2_lengthD)
  with out call answer ctor absent present show ?thesis by simp
qed

text \<open>
  The specification has every entry whose id is absent from the catalog removed. Here the
  payload names \<open>not-an-objectid\<close>, which is the id of no video; the ObjectId constructor
  refuses it, and the handler answers with its error instead of a list.
\<close>

theorem malformed_id_counterexample:
  "post_personalized (svc_ranking demo_ranked_malformed) (demo_body demo_db 10)
     = Inr (Some \<lparr>recommendations = Array demo_ranked_malformed, watched_count = Some 2,
                  liked_count = Some 1\<rparr>)
   \<and> map video_id demo_ranked_malformed = [''not-an-objectid'', ''V4'']
   \<and> new_ObjectId demo_mongoose ''not-an-objectid'' = None
   \<and> ''not-an-objectid'' \<notin> oid ` set (videos demo_db)
   \<and> getRecommendations demo_mongoose demo_db (svc_ranking demo_ranked_malformed) ''U1''
        (Some 10) =
       (Inl (BSONError
          ''input must be a 24 character hex string, 12 byte Uint8Array, or an integer''),
        [PostPersonalized (demo_body demo_db 10)])"
  by (simp add: handler_defs demo_defs)

text \<open>
  C2 (as amended). For a user with some history and a positive limit, when the external call
  rejects, resolves with an empty body, or resolves with a body without a
  \<^verbatim>\<open>recommendations\<close> field, the handler answers with status 200 and the popularity
  fallback: the first \<open>limit\<close> videos of a ranking that is a permutation of the published
  videos outside the exclusion set and is ordered by views, then creation date, both
  descending. A body whose \<^verbatim>\<open>recommendations\<close> is an empty array is not in this case: it is
  answered on the success path.
\<close>

theorem service_failure_popularity_fallback:
  assumes "watchedVideoIds db userId \<noteq> [] \<or> likedVideoIds db userId \<noteq> []"
    and "limit = (case limitQuery of None \<Rightarrow> 20 | Some n \<Rightarrow> n)" and "0 < limit"
    and "snd (getRecommendations mg db svc userId limitQuery) = [PostPersonalized body]"
    and "(\<exists>e. post_personalized svc body = Inl e)
         \<or> post_personalized svc body = Inr None
         \<or> (\<exists>d. post_personalized svc body = Inr (Some d) \<and> recommendations d = Falsy)"
  shows "\<exists>out ranking.
     getRecommendations mg db svc userId limitQuery =
       (Inr \<lparr>statusCode = 200,
             data = FallbackData out
               ''Recommendation service unavailable - using popularity fallback'',
             message = ''Fallback recommendations fetched''\<rparr>, [PostPersonalized body])
     \<and> map vdoc out = take (nat limit) ranking
     \<and> mset ranking =
         mset (filter (\<lambda>v. isPublished v
                 \<and> oid v \<notin> set (watchedVideoIds db userId) \<union> set (likedVideoIds db userId))
               (videos db))
     \<and> sorted_wrt (\<lambda>a b. views b < views a \<or> (views a = views b \<and> createdAt b \<le> createdAt a))
          ranking"
proof -
  let ?ex = "spread_Set (watchedVideoIds db userId @ likedVideoIds db userId)"
  let ?eligible = "match_stage (\<lambda>v. isPublished v \<and> oid v \<notin> set ?ex) (videos db)"
  let ?ranking = "sort_stage (\<lambda>v. (- views v, - createdAt v)) ?eligible"
  let ?out = "lookup_stage (users db) (take (nat limit) ?ranking)"
  have "getRecommendations mg db svc userId limitQuery =
          serviceFallback db ?ex limit [PostPersonalized body]"
    using getRecommendations_cases[OF assms(1,4)] assms(5) unfolding assms(2) by auto
  then have "getRecommendations mg db svc userId limitQuery =
       (Inr \<lparr>statusCode = 200,
             data = FallbackData ?out
               ''Recommendation service unavailable - using popularity fallback'',
             message = ''Fallback recommendations fetched''\<rparr>, [PostPersonalized body])"
    by (simp add: serviceFallback_pos[OF assms(3)])
  moreover have "map vdoc ?out = take (nat limit) ?ranking"
    by (rule vdoc_lookup_stage)
  moreover have "mset ?ranking =
         mset (filter (\<lambda>v. isPublished v
                 \<and> oid v \<notin> set (watchedVideoIds db userId) \<union> set (likedVideoIds db userId))
               (videos db))"
    by (simp add: mset_sort_stage match_stage_def set_spread_Set)
  moreover note popularity_sorted[of ?eligible]
  ultimately show ?thesis by blast
qed

theorem service_failure_popularity_fallback_witness:
  "watchedVideoIds demo_db ''U1'' = [''V1'', ''V2'']
   \<and> snd (getRecommendations demo_mongoose demo_db svc_down ''U1'' (Some 10))
       = [PostPersonalized (demo_body demo_db 10)]
   \<and> post_personalized svc_down (demo_body demo_db 10)
       = Inl (AxiosError ''timeout of 10000ms exceeded'')
   \<and> (\<exists>out ranking.
        getRecommendations demo_mongoose demo_db svc_down ''U1'' (Some 10) =
          (Inr \<lparr>statusCode = 200,
                data = FallbackData out
                  ''Recommendation service unavailable - using popularity fallback'',
                message = ''Fallback recommendations fetched''\<rparr>,
           [PostPersonalized (demo_body demo_db 10)])
        \<and> map vdoc out = take (nat 10) ranking
        \<and> mset ranking =
            mset (filter (\<lambda>v. isPublished v
                    \<and> oid v \<notin> set (watchedVideoIds demo_db ''U1'')
                               \<union> set (likedVideoIds demo_db ''U1''))
                  (videos demo_db))
        \<and> sorted_wrt
             (\<lambda>a b. views b < views a \<or> (views a = views b \<and> createdAt b \<le> createdAt a))
             ranking)"
proof -
  have history: "watchedVideoIds demo_db ''U1'' \<noteq> [] \<or> likedVideoIds demo_db ''U1'' \<noteq> []"
    by (simp add: demo_history)
  have limit: "(10::int) = (case Some 10 of None \<Rightarrow> 20 | Some n \<Rightarrow> n)" and pos: "(0::int) < 10"
    by simp_all
  have call: "snd (getRecommendations demo_mongoose demo_db svc_down ''U1'' (Some 10))
       = [PostPersonalized (demo_body demo_db 10)]"
    by (simp add: demo_service_down)
  have rejected: "post_personalized svc_down (demo_body demo_db 10)
       = Inl (AxiosError ''timeout of 10000ms exceeded'')"
    by (simp add: svc_down_def)
  then have unusable: "(\<exists>e. post_personalized svc_down (demo_body demo_db 10) = Inl e)
         \<or> post_personalized svc_down (demo_body demo_db 10) = Inr None
         \<or> (\<exists>d. post_personalized svc_down (demo_body demo_db 10) = Inr (Some d)
                \<and> recommendations d = Falsy)"
    by simp
  from service_failure_popularity_fallback[OF history limit pos call unusable]
    demo_history(1) call rejected
  show ?thesis by simp
qed

text \<open>
  The specification counts a ranked list that is empty among the unusable answers. Here the external service answers user \<open>U1\<close> with an empty \<^verbatim>\<open>recommendations\<close> array, the
  published videos \<open>V5\<close> and \<open>V4\<close> are outside the exclusion set, and the handler answers
  on the success path with no entry and without the fallback flag.
\<close>

theorem empty_ranking_counterexample:
  "watchedVideoIds demo_db ''U1'' = [''V1'', ''V2'']
   \<and> post_personalized (svc_ranking []) (demo_body demo_db 10)
       = Inr (Some \<lparr>recommendations = Array [], watched_count = Some 2, liked_count = Some 1\<rparr>)
   \<and> filter (\<lambda>v. isPublished v \<and> oid v \<notin> {''V1'', ''V2'', ''V3''}) (videos demo_db)
       = [demo_video ''V5'' ''O1'' 50 1 True, demo_video ''V4'' ''O1'' 100 2 True]
   \<and> getRecommendations demo_mongoose demo_db (svc_ranking []) ''U1'' (Some 10) =
       (Inr \<lparr>statusCode = 200, data = PersonalizedData [] (Some 2) (Some 1),
             message = ''Personalized recommendations fetched successfully''\<rparr>,
        [PostPersonalized (demo_body demo_db 10)])
   \<and> \<not> fallback (PersonalizedData [] (Some 2) (Some 1))"
  by (simp add: handler_defs demo_defs)

text \<open>
  C3. In a response of the personalized handler no video occurs twice and there are at
  most \<open>limit\<close> entries: on both fallback paths whenever the ids of the collection are
  distinct, and on the success path whenever the ranked list of the external service has
  distinct ids and at most \<open>limit\<close> entries, since the handler does not truncate after the
  re-join.
\<close>

theorem no_duplicates_within_limit:
  assumes "distinct (map oid (videos db))"
    and "getRecommendations mg db svc userId limitQuery = (Inr resp, calls)"
    and "limit = (case limitQuery of None \<Rightarrow> 20 | Some n \<Rightarrow> n)"
  shows "(\<forall>out reason. data resp = FallbackData out reason \<longrightarrow>
            distinct (map (oid \<circ> vdoc) out) \<and> int (length out) \<le> limit)
     \<and> (\<forall>out w l body response ranked.
            data resp = PersonalizedData out w l
            \<and> calls = [PostPersonalized body]
            \<and> post_personalized svc body = Inr (Some response)
            \<and> recommendations response = Array ranked
            \<and> distinct (map video_id ranked) \<and> int (length ranked) \<le> limit \<longrightarrow>
            distinct (map (map_option (oid \<circ> vdoc) \<circ> video) out) \<and> int (length out) \<le> limit)"
proof (cases "watchedVideoIds db userId = [] \<and> likedVideoIds db userId = []")
  case True
  then have "popularFallback db limit = (Inr resp, calls)"
    using assms(2,3) by (simp add: getRecommendations_def)
  then show ?thesis
    using popularFallback_bounds[OF _ _ assms(1)]
    by (auto simp add: popularFallback_def Let_def split: sum.splits)
next
  case False
  then have hist: "watchedVideoIds db userId \<noteq> [] \<or> likedVideoIds db userId \<noteq> []" by simp
  let ?ex = "spread_Set (watchedVideoIds db userId @ likedVideoIds db userId)"
  have snd_calls: "snd (getRecommendations mg db svc userId limitQuery) = calls"
    using assms(2) by simp
  show ?thesis
  proof (intro conjI allI impI)
    fix out reason assume fb: "data resp = FallbackData out reason"
    note h = getRecommendations_history[OF hist refl, where mg = mg and svc = svc and limitQuery = limitQuery]
    have "\<exists>cs. serviceFallback db ?ex limit cs = (Inr resp, calls)"
      using assms(2) fb unfolding h assms(3)
      by (auto simp add: personalizedResults_def Let_def split: sum.splits option.splits arrayField.splits)
    then obtain cs where "serviceFallback db ?ex limit cs = (Inr resp, calls)" by blast
    from serviceFallback_bounds[OF this fb assms(1)]
    show "distinct (map (oid \<circ> vdoc) out)" and "int (length out) \<le> limit" by simp_all
  next
    fix out w l body response ranked
    assume a: "data resp = PersonalizedData out w l
            \<and> calls = [PostPersonalized body]
            \<and> post_personalized svc body = Inr (Some response)
            \<and> recommendations response = Array ranked
            \<and> distinct (map video_id ranked) \<and> int (length ranked) \<le> limit"
    then have "snd (getRecommendations mg db svc userId limitQuery) = [PostPersonalized body]"
      using snd_calls by simp
    from getRecommendations_cases[OF hist this] a assms(2)
    have pr: "personalizedResults mg db response ranked [PostPersonalized body] = (Inr resp, calls)"
      by simp
    have "distinct (map (map_option (oid \<circ> vdoc) \<circ> video) out) \<and> int (length out) \<le> limit"
      using personalizedResults_bounds[OF pr, of out w l limit] a by blast
    then show "distinct (map (map_option (oid \<circ> vdoc) \<circ> video) out)" and "int (length out) \<le> limit"
      by simp_all
  qed
qed

theorem no_duplicates_within_limit_witness:
  "distinct (map oid (videos demo_db)) \<and> distinct (map oid (videos demo_db_V7))
   \<and> (\<exists>resp calls out reason.
         getRecommendations demo_mongoose demo_db svc_down ''U1'' (Some 10) = (Inr resp, calls)
         \<and> data resp = FallbackData out reason
         \<and> distinct (map (oid \<circ> vdoc) out) \<and> int (length out) \<le> 10)
   \<and> (\<exists>resp out w l.
         getRecommendations demo_mongoose demo_db_V7 (svc_ranking demo_ranked) ''U1'' (Some 2)
           = (Inr resp, [PostPersonalized (demo_body demo_db_V7 2)])
         \<and> data resp = PersonalizedData out w l
         \<and> post_personalized (svc_ranking demo_ranked) (demo_body demo_db_V7 2)
             = Inr (Some \<lparr>recommendations = Array demo_ranked, watched_count = Some 2,
                          liked_count = Some 1\<rparr>)
         \<and> distinct (map video_id demo_ranked) \<and> int (length demo_ranked) \<le> 2
         \<and> distinct (map (map_option (oid \<circ> vdoc) \<circ> video) out) \<and> int (length out) \<le> 2)"
proof -
  let ?payload = "\<lparr>recommendations = Array demo_ranked, watched_count = Some 2,
                   liked_count = Some 1\<rparr>"
  have ids: "distinct (map oid (videos demo_db))" "distinct (map oid (videos demo_db_V7))"
    by (simp_all add: demo_defs)
  have ranked: "distinct (map video_id demo_ranked)" "int (length demo_ranked) \<le> 2"
    by (simp_all add: demo_defs)
  have answer: "post_personalized (svc_ranking demo_ranked) (demo_body demo_db_V7 2)
     = Inr (Some ?payload)"
    by (simp add: svc_ranking_def svc_down_def)
  have lim10: "(10::int) = (case Some 10 of None \<Rightarrow> 20 | Some n \<Rightarrow> n)"
    and lim2: "(2::int) = (case Some 2 of None \<Rightarrow> 20 | Some n \<Rightarrow> n)"
    by simp_all
  note down = no_duplicates_within_limit[OF ids(1) demo_service_down lim10]
  note up = no_duplicates_within_limit[OF ids(2) demo_rejoin lim2]
  from down have "\<exists>resp calls out reason.
         getRecommendations demo_mongoose demo_db svc_down ''U1'' (Some 10) = (Inr resp, calls)
         \<and> data resp = FallbackData out reason
         \<and> distinct (map (oid \<circ> vdoc) out) \<and> int (length out) \<le> 10"
    using demo_service_down by simp
  moreover from up ranked answer have "\<exists>resp out w l.
         getRecommendations demo_mongoose demo_db_V7 (svc_ranking demo_ranked) ''U1'' (Some 2)
           = (Inr resp, [PostPersonalized (demo_body demo_db_V7 2)])
         \<and> data resp = PersonalizedData out w l
         \<and> post_personalized (svc_ranking demo_ranked) (demo_body demo_db_V7 2)
             = Inr (Some ?payload)
         \<and> distinct (map video_id demo_ranked) \<and> int (length demo_ranked) \<le> 2
         \<and> distinct (map (map_option (oid \<circ> vdoc) \<circ> video) out) \<and> int (length out) \<le> 2"
    using demo_rejoin by simp
  ultimately show ?thesis using ids by blast
qed

text \<open>
  C4. The specification asks that a video unpublished since indexing is dropped on the
  success path. The re-join matches on the id alone: in the catalog of the worked scenarios the external
  ranking names the deleted \<open>V9\<close> and the unpublished \<open>V8\<close>, and the handler drops \<open>V9\<close> but
  returns \<open>V8\<close>.
\<close>

theorem unpublished_video_recommended:
  "find (\<lambda>v. oid v = ''V8'') (videos demo_db) = Some (demo_video ''V8'' ''O2'' 900 4 False)
   \<and> \<not> isPublished (demo_video ''V8'' ''O2'' 900 4 False)
   \<and> post_personalized (svc_ranking demo_ranked_unpublished) (demo_body demo_db 10)
       = Inr (Some \<lparr>recommendations = Array demo_ranked_unpublished, watched_count = Some 2,
                    liked_count = Some 1\<rparr>)
   \<and> getRecommendations demo_mongoose demo_db (svc_ranking demo_ranked_unpublished) ''U1'' (Some 10) =
       (Inr \<lparr>statusCode = 200,
             data = PersonalizedData
               [\<lparr>video = Some \<lparr>vdoc = demo_video ''V8'' ''O2'' 900 4 False, vowner = None\<rparr>,
                 score = 0.8, scoreBreakdown = []\<rparr>]
               (Some 2) (Some 1),
             message = ''Personalized recommendations fetched successfully''\<rparr>,
        [PostPersonalized (demo_body demo_db 10)])"
  by (simp add: handler_defs demo_defs)

text \<open>
  C5 (as amended). For a user with neither watch history nor liked videos and a positive
  limit, the
  handler issues no call to the external service and answers with status 200 and the
  popularity fallback with the no-history reason: the first \<open>limit\<close> videos of a ranking
  that is a permutation of the published videos, ordered by views, then creation date, both
  descending.
\<close>

theorem no_history_popular_fallback:
  assumes "watchedVideoIds db userId = []" and "likedVideoIds db userId = []"
    and "(case limitQuery of None \<Rightarrow> 20 | Some n \<Rightarrow> n) = limit" and "0 < limit"
  shows "\<exists>out ranking.
     getRecommendations mg db svc userId limitQuery =
       (Inr \<lparr>statusCode = 200,
             data = FallbackData out ''No user history available - showing popular videos'',
             message = ''Popular videos fetched as fallback''\<rparr>, [])
     \<and> map vdoc out = take (nat limit) ranking
     \<and> mset ranking = mset (filter isPublished (videos db))
     \<and> sorted_wrt (\<lambda>a b. views b < views a \<or> (views a = views b \<and> createdAt b \<le> createdAt a))
          ranking"
proof -
  let ?ranking = "sort_stage (\<lambda>v. (- views v, - createdAt v)) (match_stage isPublished (videos db))"
  let ?out = "lookup_stage (users db) (take (nat limit) ?ranking)"
  have "getRecommendations mg db svc userId limitQuery = popularFallback db limit"
    using assms(1,2,3) by (simp add: getRecommendations_def)
  then have "getRecommendations mg db svc userId limitQuery =
       (Inr \<lparr>statusCode = 200,
             data = FallbackData ?out ''No user history available - showing popular videos'',
             message = ''Popular videos fetched as fallback''\<rparr>, [])"
    using assms(4) by (simp add: popularFallback_pos)
  moreover have "map vdoc ?out = take (nat limit) ?ranking"
    by (rule vdoc_lookup_stage)
  moreover have "mset ?ranking = mset (filter isPublished (videos db))"
    by (simp add: mset_sort_stage match_stage_def)
  moreover note popularity_sorted[of "match_stage isPublished (videos db)"]
  ultimately show ?thesis by blast
qed

theorem no_history_popular_fallback_witness:
  "watchedVideoIds demo_db ''U9'' = [] \<and> likedVideoIds demo_db ''U9'' = []
   \<and> (\<exists>out ranking.
        getRecommendations demo_mongoose demo_db svc_down ''U9'' (Some 2) =
          (Inr \<lparr>statusCode = 200,
                data = FallbackData out ''No user history available - showing popular videos'',
                message = ''Popular videos fetched as fallback''\<rparr>, [])
        \<and> map vdoc out = take (nat 2) ranking
        \<and> mset ranking = mset (filter isPublished (videos demo_db))
        \<and> sorted_wrt
             (\<lambda>a b. views b < views a \<or> (views a = views b \<and> createdAt b \<le> createdAt a))
             ranking)"
proof -
  have limit: "(case Some 2 of None \<Rightarrow> 20 | Some n \<Rightarrow> n) = (2::int)" and pos: "(0::int) < 2"
    by simp_all
  from no_history_popular_fallback[OF demo_history(5) demo_history(6) limit pos,
      where mg = demo_mongoose and svc = svc_down]
    demo_history(5,6)
  show ?thesis by blast
qed

text \<open>
  The specification sets no condition on the limit. The handler hands
  \<^verbatim>\<open>parseInt(limit)\<close> to \<^verbatim>\<open>$limit\<close> as it comes: for user \<open>U9\<close>, who has no history, and
  the limit 0 the database refuses the pipeline, and the handler answers with that error.
\<close>

theorem zero_limit_counterexample:
  "watchedVideoIds demo_db ''U9'' = [] \<and> likedVideoIds demo_db ''U9'' = []
   \<and> getRecommendations demo_mongoose demo_db svc_down ''U9'' (Some 0) =
       (Inl (MongoServerError ''the limit must be positive''), [])"
  by (simp add: handler_defs demo_defs)

text \<open>
  C6. In every fallback response of the personalized handler, no video has an id among the
  watched or liked ids of the user.
\<close>

theorem fallback_excludes_history:
  assumes "getRecommendations mg db svc userId limitQuery = (Inr resp, calls)"
    and "data resp = FallbackData out reason"
  shows "\<forall>pv \<in> set out.
           oid (vdoc pv) \<notin> set (watchedVideoIds db userId) \<union> set (likedVideoIds db userId)"
proof (cases "watchedVideoIds db userId = [] \<and> likedVideoIds db userId = []")
  case True
  then show ?thesis by simp
next
  case False
  let ?ex = "spread_Set (watchedVideoIds db userId @ likedVideoIds db userId)"
  from False have hist: "watchedVideoIds db userId \<noteq> [] \<or> likedVideoIds db userId \<noteq> []"
    by simp
  note h = getRecommendations_history[OF hist refl, where mg = mg and svc = svc and limitQuery = limitQuery]
  have "\<exists>lim cs. serviceFallback db ?ex lim cs = (Inr resp, calls)"
    using assms unfolding h
    by (auto simp add: personalizedResults_def Let_def split: sum.splits option.splits arrayField.splits)
  then obtain lim cs where "serviceFallback db ?ex lim cs = (Inr resp, calls)" by blast
  from serviceFallback_excludes[OF this assms(2)]
  show ?thesis by (simp add: set_spread_Set)
qed

theorem fallback_excludes_history_witness:
  "getRecommendations demo_mongoose demo_db svc_down ''U1'' (Some 10) =
     (Inr \<lparr>statusCode = 200,
           data = FallbackData
             [\<lparr>vdoc = demo_video ''V4'' ''O1'' 100 2 True,
               vowner = Some \<lparr>owner_id = ''O1'', owner_username = ''bob'',
                              owner_fullName = ''Bob'', owner_avatar = ''b.png''\<rparr>\<rparr>,
              \<lparr>vdoc = demo_video ''V5'' ''O1'' 50 1 True,
               vowner = Some \<lparr>owner_id = ''O1'', owner_username = ''bob'',
                              owner_fullName = ''Bob'', owner_avatar = ''b.png''\<rparr>\<rparr>]
             ''Recommendation service unavailable - using popularity fallback'',
           message = ''Fallback recommendations fetched''\<rparr>,
      [PostPersonalized (demo_body demo_db 10)])
   \<and> ''V4'' \<notin> set (watchedVideoIds demo_db ''U1'') \<union> set (likedVideoIds demo_db ''U1'')
   \<and> ''V5'' \<notin> set (watchedVideoIds demo_db ''U1'') \<union> set (likedVideoIds demo_db ''U1'')"
proof -
  let ?out = "[\<lparr>vdoc = demo_video ''V4'' ''O1'' 100 2 True,
               vowner = Some \<lparr>owner_id = ''O1'', owner_username = ''bob'',
                              owner_fullName = ''Bob'', owner_avatar = ''b.png''\<rparr>\<rparr>,
              \<lparr>vdoc = demo_video ''V5'' ''O1'' 50 1 True,
               vowner = Some \<lparr>owner_id = ''O1'', owner_username = ''bob'',
                              owner_fullName = ''Bob'', owner_avatar = ''b.png''\<rparr>\<rparr>]"
  have shape: "data \<lparr>statusCode = 200,
           data = FallbackData ?out
             ''Recommendation service unavailable - using popularity fallback'',
           message = ''Fallback recommendations fetched''\<rparr> = FallbackData ?out
             ''Recommendation service unavailable - using popularity fallback''"
    by simp
  from fallback_excludes_history[OF demo_service_down shape]
  have "\<forall>pv \<in> set ?out.
           oid (vdoc pv) \<notin> set (watchedVideoIds demo_db ''U1'')
                             \<union> set (likedVideoIds demo_db ''U1'')" .
  then have "''V4'' \<notin> set (watchedVideoIds demo_db ''U1'') \<union> set (likedVideoIds demo_db ''U1'')"
    and "''V5'' \<notin> set (watchedVideoIds demo_db ''U1'') \<union> set (likedVideoIds demo_db ''U1'')"
    by (simp_all add: demo_video_def)
  with demo_service_down show ?thesis by simp
qed

text \<open>
  C7 (as amended). For a request id that is accepted and is the id of a video, and a
  positive limit, when the similarity call rejects, resolves with an empty body, or resolves
  with a body without a \<^verbatim>\<open>similar_videos\<close> field, the handler answers with status 200, the
  fallback flag set, and the first \<open>limit\<close> videos of a ranking, by views descending, of the
  published videos of the same owner other than the source. When the owner has no other
  published video the list is empty. A body whose \<^verbatim>\<open>similar_videos\<close> is an empty array is
  not in this case: it is answered on the success path.
\<close>

theorem similar_owner_fallback:
  assumes "isValidObjectId mg videoId"
    and "new_ObjectId mg videoId = Some sourceId"
    and "find (\<lambda>v. oid v = sourceId) (videos db) = Some source"
    and "limit = (case limitQuery of None \<Rightarrow> 10 | Some n \<Rightarrow> n)" and "0 < limit"
    and "(\<exists>e. get_similar svc videoId limit = Inl e)
         \<or> get_similar svc videoId limit = Inr None
         \<or> (\<exists>d. get_similar svc videoId limit = Inr (Some d) \<and> similar_videos d = Falsy)"
  shows "\<exists>out ranking.
     getSimilar mg db svc videoId limitQuery =
       (Inr \<lparr>statusCode = 200,
             data = \<lparr>sourceVideo = videoId, similarVideos = SimilarFallback out,
                     sim_fallback = True\<rparr>,
             message = ''Fallback similar videos fetched''\<rparr>, [GetSimilar videoId limit])
     \<and> map vdoc out = take (nat limit) ranking
     \<and> mset ranking =
         mset (filter (\<lambda>v. isPublished v \<and> oid v \<noteq> sourceId \<and> owner v = owner source)
               (videos db))
     \<and> sorted_wrt (\<lambda>a b. views b \<le> views a) ranking
     \<and> ((\<forall>v \<in> set (videos db). isPublished v \<and> owner v = owner source \<longrightarrow> oid v = sourceId)
          \<longrightarrow> out = [])"
proof -
  let ?others = "match_stage (\<lambda>v. isPublished v \<and> oid v \<noteq> sourceId \<and> owner v = owner source)
                   (videos db)"
  let ?ranking = "sort_stage (\<lambda>v. - views v) ?others"
  let ?out = "lookup_stage (users db) (take (nat limit) ?ranking)"
  have "getSimilar mg db svc videoId limitQuery =
          ownerFallback mg db source videoId limit [GetSimilar videoId limit]"
    using assms(1,2,3,6) unfolding getSimilar_def Let_def client_similar assms(4)
    by auto
  then have "getSimilar mg db svc videoId limitQuery =
       (Inr \<lparr>statusCode = 200,
             data = \<lparr>sourceVideo = videoId, similarVideos = SimilarFallback ?out,
                     sim_fallback = True\<rparr>,
             message = ''Fallback similar videos fetched''\<rparr>, [GetSimilar videoId limit])"
    by (simp add: ownerFallback_pos[OF assms(2,5)])
  moreover have "map vdoc ?out = take (nat limit) ?ranking"
    by (rule vdoc_lookup_stage)
  moreover have "mset ?ranking =
         mset (filter (\<lambda>v. isPublished v \<and> oid v \<noteq> sourceId \<and> owner v = owner source)
               (videos db))"
    by (simp add: mset_sort_stage match_stage_def)
  moreover note views_sorted[of ?others]
  moreover have "(\<forall>v \<in> set (videos db). isPublished v \<and> owner v = owner source \<longrightarrow> oid v = sourceId)
          \<longrightarrow> ?out = []"
  proof
    assume "\<forall>v \<in> set (videos db). isPublished v \<and> owner v = owner source \<longrightarrow> oid v = sourceId"
    then have "?others = []"
      by (auto simp add: match_stage_def filter_empty_conv)
    then show "?out = []"
      by (simp add: sort_stage_def lookup_stage_def)
  qed
  ultimately show ?thesis by blast
qed

theorem similar_owner_fallback_witness:
  "isValidObjectId demo_mongoose ''V4''
   \<and> new_ObjectId demo_mongoose ''V4'' = Some ''V4''
   \<and> find (\<lambda>v. oid v = ''V4'') (videos demo_db) = Some (demo_video ''V4'' ''O1'' 100 2 True)
   \<and> find (\<lambda>v. oid v = ''V1'') (videos demo_db) = Some (demo_video ''V1'' ''O2'' 500 3 True)
   \<and> get_similar svc_down ''V4'' 10 = Inl (AxiosError ''timeout of 10000ms exceeded'')
   \<and> (\<exists>out. getSimilar demo_mongoose demo_db svc_down ''V4'' None =
         (Inr \<lparr>statusCode = 200,
               data = \<lparr>sourceVideo = ''V4'', similarVideos = SimilarFallback out,
                       sim_fallback = True\<rparr>,
               message = ''Fallback similar videos fetched''\<rparr>, [GetSimilar ''V4'' 10])
        \<and> map (oid \<circ> vdoc) out = [''V5''])
   \<and> getSimilar demo_mongoose demo_db svc_down ''V1'' None =
         (Inr \<lparr>statusCode = 200,
               data = \<lparr>sourceVideo = ''V1'', similarVideos = SimilarFallback [],
                       sim_fallback = True\<rparr>,
               message = ''Fallback similar videos fetched''\<rparr>, [GetSimilar ''V1'' 10])"
proof -
  have valid: "isValidObjectId demo_mongoose ''V4''" "isValidObjectId demo_mongoose ''V1''"
    by (simp_all add: demo_mongoose_def)
  have ctor: "new_ObjectId demo_mongoose ''V4'' = Some ''V4''"
    "new_ObjectId demo_mongoose ''V1'' = Some ''V1''"
    by (simp_all add: demo_mongoose_def)
  have source4: "find (\<lambda>v. oid v = ''V4'') (videos demo_db)
                   = Some (demo_video ''V4'' ''O1'' 100 2 True)"
    and source1: "find (\<lambda>v. oid v = ''V1'') (videos demo_db)
                   = Some (demo_video ''V1'' ''O2'' 500 3 True)"
    by (simp_all add: demo_defs)
  have limit: "(10::int) = (case None of None \<Rightarrow> 10 | Some n \<Rightarrow> n)" and pos: "(0::int) < 10"
    by simp_all
  have rejected: "get_similar svc_down ''V4'' 10 = Inl (AxiosError ''timeout of 10000ms exceeded'')"
    "get_similar svc_down ''V1'' 10 = Inl (AxiosError ''timeout of 10000ms exceeded'')"
    by (simp_all add: svc_down_def)
  have unusable4: "(\<exists>e. get_similar svc_down ''V4'' 10 = Inl e)
         \<or> get_similar svc_down ''V4'' 10 = Inr None
         \<or> (\<exists>d. get_similar svc_down ''V4'' 10 = Inr (Some d) \<and> similar_videos d = Falsy)"
    and unusable1: "(\<exists>e. get_similar svc_down ''V1'' 10 = Inl e)
         \<or> get_similar svc_down ''V1'' 10 = Inr None
         \<or> (\<exists>d. get_similar svc_down ''V1'' 10 = Inr (Some d) \<and> similar_videos d = Falsy)"
    using rejected by simp_all
  have others4: "filter (\<lambda>v. isPublished v \<and> oid v \<noteq> ''V4''
                     \<and> owner v = owner (demo_video ''V4'' ''O1'' 100 2 True)) (videos demo_db)
                 = [demo_video ''V5'' ''O1'' 50 1 True]"
    by (simp add: demo_defs)
  have alone1: "\<forall>v \<in> set (videos demo_db).
                  isPublished v \<and> owner v = owner (demo_video ''V1'' ''O2'' 500 3 True)
                  \<longrightarrow> oid v = ''V1''"
    by (simp add: demo_defs)
  from similar_owner_fallback[where mg = demo_mongoose and videoId = "''V4''",
      OF valid(1) ctor(1) source4 limit pos unusable4]
  obtain out ranking where run4:
    "getSimilar demo_mongoose demo_db svc_down ''V4'' None =
       (Inr \<lparr>statusCode = 200,
             data = \<lparr>sourceVideo = ''V4'', similarVideos = SimilarFallback out,
                     sim_fallback = True\<rparr>,
             message = ''Fallback similar videos fetched''\<rparr>, [GetSimilar ''V4'' 10])"
    "map vdoc out = take (nat 10) ranking"
    "mset ranking = mset (filter (\<lambda>v. isPublished v \<and> oid v \<noteq> ''V4''
                     \<and> owner v = owner (demo_video ''V4'' ''O1'' 100 2 True)) (videos demo_db))"
    by blast
  from run4(3) have "ranking = [demo_video ''V5'' ''O1'' 50 1 True]"
    unfolding others4 by simp
  with run4(2) have "map oid (map vdoc out) = [''V5'']"
    by (simp add: demo_video_def)
  then have ids4: "map (oid \<circ> vdoc) out = [''V5'']"
    by simp
  from similar_owner_fallback[where mg = demo_mongoose and videoId = "''V1''",
      OF valid(2) ctor(2) source1 limit pos unusable1] alone1
  have run1: "getSimilar demo_mongoose demo_db svc_down ''V1'' None =
         (Inr \<lparr>statusCode = 200,
               data = \<lparr>sourceVideo = ''V1'', similarVideos = SimilarFallback [],
                       sim_fallback = True\<rparr>,
               message = ''Fallback similar videos fetched''\<rparr>, [GetSimilar ''V1'' 10])"
    by auto
  from run4(1) ids4 have "\<exists>out. getSimilar demo_mongoose demo_db svc_down ''V4'' None =
         (Inr \<lparr>statusCode = 200,
               data = \<lparr>sourceVideo = ''V4'', similarVideos = SimilarFallback out,
                       sim_fallback = True\<rparr>,
               message = ''Fallback similar videos fetched''\<rparr>, [GetSimilar ''V4'' 10])
        \<and> map (oid \<circ> vdoc) out = [''V5'']"
    by (intro exI[of _ out] conjI)
  with valid(1) ctor(1) source4 source1 rejected(1) run1 show ?thesis
    by (intro conjI)
qed

text \<open>
  The specification has the fallback whenever the service returns no usable list, an empty
  one included, and sets no condition on the limit. For the source \<open>V4\<close>, whose owner has
  the other published video \<open>V5\<close>: when the service answers with an empty
  \<^verbatim>\<open>similar_videos\<close> array the handler answers on the success path with no entry and
  without the fallback flag; and when the service is down and the limit is 0 the database
  refuses the fallback pipeline and the handler answers with that error.
\<close>

theorem similar_fallback_counterexample:
  "filter (\<lambda>v. isPublished v \<and> oid v \<noteq> ''V4'' \<and> owner v = ''O1'') (videos demo_db)
     = [demo_video ''V5'' ''O1'' 50 1 True]
   \<and> get_similar (svc_similar []) ''V4'' 10 = Inr (Some \<lparr>similar_videos = Array []\<rparr>)
   \<and> getSimilar demo_mongoose demo_db (svc_similar []) ''V4'' None =
       (Inr \<lparr>statusCode = 200,
             data = \<lparr>sourceVideo = ''V4'', similarVideos = SimilarOrdered [],
                     sim_fallback = False\<rparr>,
             message = ''Similar videos fetched successfully''\<rparr>, [GetSimilar ''V4'' 10])
   \<and> getSimilar demo_mongoose demo_db svc_down ''V4'' (Some 0) =
       (Inl (MongoServerError ''the limit must be positive''), [GetSimilar ''V4'' 0])"
  by (simp add: handler_defs demo_defs)

text \<open>
  C8. A request id that \<^verbatim>\<open>isValidObjectId\<close> refuses is rejected with status 400. An accepted
  id is cast by \<^verbatim>\<open>Video.findById\<close>; when the ObjectId it stands for is the id of no video the
  handler fails with status 404. In both cases, and when the cast itself throws, no call to
  the external service is issued. When the ObjectId is the id of a video, the similarity
  call is issued with the id as it came and neither rejection arises.
\<close>

theorem getSimilar_rejects:
  "(\<not> isValidObjectId mg videoId \<longrightarrow>
      getSimilar mg db svc videoId limitQuery
        = (Inl (ApiError 400 ''Invalid video ID''), []))
   \<and> (isValidObjectId mg videoId \<and> new_ObjectId mg videoId = Some sourceId
        \<and> sourceId \<notin> oid ` set (videos db) \<longrightarrow>
      getSimilar mg db svc videoId limitQuery
        = (Inl (ApiError 404 ''Video not found''), []))
   \<and> (isValidObjectId mg videoId \<and> new_ObjectId mg videoId = None \<longrightarrow>
      snd (getSimilar mg db svc videoId limitQuery) = [])
   \<and> (isValidObjectId mg videoId \<and> new_ObjectId mg videoId = Some sourceId
        \<and> sourceId \<in> oid ` set (videos db) \<longrightarrow>
      snd (getSimilar mg db svc videoId limitQuery)
        = [GetSimilar videoId (case limitQuery of None \<Rightarrow> 10 | Some n \<Rightarrow> n)]
      \<and> fst (getSimilar mg db svc videoId limitQuery)
            \<noteq> Inl (ApiError 404 ''Video not found'')
      \<and> fst (getSimilar mg db svc videoId limitQuery)
            \<noteq> Inl (ApiError 400 ''Invalid video ID''))"
proof -
  have invalid: "getSimilar mg db svc videoId limitQuery
        = (Inl (ApiError 400 ''Invalid video ID''), [])" if "\<not> isValidObjectId mg videoId"
    using that by (simp add: getSimilar_def)
  have missing: "getSimilar mg db svc videoId limitQuery
        = (Inl (ApiError 404 ''Video not found''), [])"
    if "isValidObjectId mg videoId \<and> new_ObjectId mg videoId = Some sourceId
        \<and> sourceId \<notin> oid ` set (videos db)"
  proof -
    from that have "isValidObjectId mg videoId" and "new_ObjectId mg videoId = Some sourceId"
      and "find (\<lambda>v. oid v = sourceId) (videos db) = None"
      by (auto simp add: find_None_iff)
    then show ?thesis by (simp add: getSimilar_def)
  qed
  have uncast: "snd (getSimilar mg db svc videoId limitQuery) = []"
    if "isValidObjectId mg videoId \<and> new_ObjectId mg videoId = None"
    using that by (simp add: getSimilar_def)
  have existing: "snd (getSimilar mg db svc videoId limitQuery)
        = [GetSimilar videoId (case limitQuery of None \<Rightarrow> 10 | Some n \<Rightarrow> n)]
      \<and> fst (getSimilar mg db svc videoId limitQuery)
            \<noteq> Inl (ApiError 404 ''Video not found'')
      \<and> fst (getSimilar mg db svc videoId limitQuery)
            \<noteq> Inl (ApiError 400 ''Invalid video ID'')"
    if "isValidObjectId mg videoId \<and> new_ObjectId mg videoId = Some sourceId
        \<and> sourceId \<in> oid ` set (videos db)"
  proof -
    from that have "find (\<lambda>v. oid v = sourceId) (videos db) \<noteq> None"
      by (auto simp add: find_None_iff)
    then obtain source where "find (\<lambda>v. oid v = sourceId) (videos db) = Some source"
      by blast
    with that have run: "getSimilar mg db svc videoId limitQuery =
        (case (case get_similar svc videoId (case limitQuery of None \<Rightarrow> 10 | Some n \<Rightarrow> n) of
                 Inl e \<Rightarrow> None | Inr d \<Rightarrow> d) of
           None \<Rightarrow> ownerFallback mg db source videoId
                     (case limitQuery of None \<Rightarrow> 10 | Some n \<Rightarrow> n)
                     [GetSimilar videoId (case limitQuery of None \<Rightarrow> 10 | Some n \<Rightarrow> n)]
         | Some similarResult \<Rightarrow>
             (case similar_videos similarResult of
                Falsy \<Rightarrow> ownerFallback mg db source videoId
                     (case limitQuery of None \<Rightarrow> 10 | Some n \<Rightarrow> n)
                     [GetSimilar videoId (case limitQuery of None \<Rightarrow> 10 | Some n \<Rightarrow> n)]
              | NotArray \<Rightarrow>
                  (Inl (TypeError ''similarResult.similar_videos.map is not a function''),
                   [GetSimilar videoId (case limitQuery of None \<Rightarrow> 10 | Some n \<Rightarrow> n)])
              | Array ranked \<Rightarrow> similarOrdered mg db videoId ranked
                     [GetSimilar videoId (case limitQuery of None \<Rightarrow> 10 | Some n \<Rightarrow> n)]))"
      by (simp add: getSimilar_def client_similar Let_def split: option.splits)
    show ?thesis
      unfolding run
      by (simp add: ownerFallback_result similarOrdered_result
            split: option.splits arrayField.splits)
  qed
  from invalid missing uncast existing show ?thesis by blast
qed

theorem getSimilar_rejects_witness:
  "getSimilar demo_mongoose demo_db svc_down ''bad id'' None
     = (Inl (ApiError 400 ''Invalid video ID''), [])
   \<and> getSimilar demo_mongoose demo_db svc_down ''V9'' None
     = (Inl (ApiError 404 ''Video not found''), [])
   \<and> snd (getSimilar demo_mongoose demo_db svc_down ''V4'' None) = [GetSimilar ''V4'' 10]
   \<and> new_ObjectId demo_mongoose ''v4'' = Some ''V4''
   \<and> snd (getSimilar demo_mongoose demo_db svc_down ''v4'' None) = [GetSimilar ''v4'' 10]"
proof -
  have "\<not> isValidObjectId demo_mongoose ''bad id''"
    by (simp add: demo_mongoose_def)
  moreover have "isValidObjectId demo_mongoose ''V9'' \<and> new_ObjectId demo_mongoose ''V9'' = Some ''V9''
      \<and> ''V9'' \<notin> oid ` set (videos demo_db)"
    by (simp add: demo_defs)
  moreover have "isValidObjectId demo_mongoose ''V4'' \<and> new_ObjectId demo_mongoose ''V4'' = Some ''V4''
      \<and> ''V4'' \<in> oid ` set (videos demo_db)"
    by (simp add: demo_defs)
  moreover have "isValidObjectId demo_mongoose ''v4'' \<and> new_ObjectId demo_mongoose ''v4'' = Some ''V4''
      \<and> ''V4'' \<in> oid ` set (videos demo_db)"
    by (simp add: demo_defs)
  ultimately show ?thesis
    using getSimilar_rejects[of demo_mongoose "''bad id''" demo_db svc_down None]
      getSimilar_rejects[of demo_mongoose "''V9''" demo_db svc_down None "''V9''"]
      getSimilar_rejects[of demo_mongoose "''V4''" demo_db svc_down None "''V4''"]
      getSimilar_rejects[of demo_mongoose "''v4''" demo_db svc_down None "''V4''"]
    by simp
qed

text \<open>
  C9. With no published video the sync handler answers with a zero count and issues no
  call. Otherwise it posts the whole batch once; when that call rejects, the handler fails
  with status 503, and when it resolves with a summary (an object, which JavaScript counts
  as true), the summary is the data of the response, unchanged.
\<close>

theorem sync_outcomes:
  assumes "published = filter isPublished (videos db)"
    and "batch = map (\<lambda>v. \<lparr>sync_video_id = oid v, sync_title = title v,
                            sync_description = description v\<rparr>) published"
  shows "(published = [] \<longrightarrow>
            syncVideoEmbeddings db svc =
              (Inr \<lparr>statusCode = 200, data = NothingToSync 0 ''No videos to sync'',
                    message = ''No videos available for sync''\<rparr>, []))
     \<and> (published \<noteq> [] \<and> (\<exists>e. post_sync svc batch = Inl e) \<longrightarrow>
            syncVideoEmbeddings db svc =
              (Inl (ApiError 503 ''Recommendation service unavailable''), [PostSync batch]))
     \<and> (\<forall>summary. published \<noteq> [] \<and> post_sync svc batch = Inr summary \<and> truthy summary \<longrightarrow>
            syncVideoEmbeddings db svc =
              (Inr \<lparr>statusCode = 200, data = SyncResult summary,
                    message = ''Embeddings synced successfully''\<rparr>, [PostSync batch]))"
  unfolding assms
  by (auto simp add: syncVideoEmbeddings_def syncEmbeddings_def try_catch_def Let_def)

theorem sync_outcomes_witness:
  "syncVideoEmbeddings (demo_db\<lparr>videos := []\<rparr>) svc_down =
     (Inr \<lparr>statusCode = 200, data = NothingToSync 0 ''No videos to sync'',
           message = ''No videos available for sync''\<rparr>, [])
   \<and> fst (syncVideoEmbeddings demo_db svc_down)
       = Inl (ApiError 503 ''Recommendation service unavailable'')
   \<and> fst (syncVideoEmbeddings demo_db
        (svc_summary (JObj [(''processed'', JNum 3), (''new'', JNum 0), (''errors'', JArr [])])))
       = Inr \<lparr>statusCode = 200,
              data = SyncResult
                (JObj [(''processed'', JNum 3), (''new'', JNum 0), (''errors'', JArr [])]),
              message = ''Embeddings synced successfully''\<rparr>
   \<and> snd (syncVideoEmbeddings demo_db svc_down) =
       [PostSync [\<lparr>sync_video_id = ''V5'', sync_title = ''title'', sync_description = ''text''\<rparr>,
                  \<lparr>sync_video_id = ''V4'', sync_title = ''title'', sync_description = ''text''\<rparr>,
                  \<lparr>sync_video_id = ''V1'', sync_title = ''title'', sync_description = ''text''\<rparr>]]"
proof -
  let ?summary = "JObj [(''processed'', JNum 3), (''new'', JNum 0), (''errors'', JArr [])]"
  let ?batch = "[\<lparr>sync_video_id = ''V5'', sync_title = ''title'', sync_description = ''text''\<rparr>,
                 \<lparr>sync_video_id = ''V4'', sync_title = ''title'', sync_description = ''text''\<rparr>,
                 \<lparr>sync_video_id = ''V1'', sync_title = ''title'', sync_description = ''text''\<rparr>]"
  let ?published = "[demo_video ''V5'' ''O1'' 50 1 True, demo_video ''V4'' ''O1'' 100 2 True,
                     demo_video ''V1'' ''O2'' 500 3 True]"
  have none: "[] = filter isPublished (videos (demo_db\<lparr>videos := []\<rparr>))"
    by simp
  have published: "?published = filter isPublished (videos demo_db)"
    by (simp add: demo_defs)
  have batch: "?batch = map (\<lambda>v. \<lparr>sync_video_id = oid v, sync_title = title v,
                                   sync_description = description v\<rparr>) ?published"
    by (simp add: demo_video_def)
  have rejected: "post_sync svc_down ?batch = Inl (AxiosError ''timeout of 10000ms exceeded'')"
    by (simp add: svc_down_def)
  have resolved: "post_sync (svc_summary ?summary) ?batch = Inr ?summary" "truthy ?summary"
    by (simp_all add: svc_summary_def svc_down_def)
  from sync_outcomes[OF none refl, of svc_down]
       sync_outcomes[OF published batch, of svc_down]
       sync_outcomes[OF published batch, of "svc_summary ?summary"]
       rejected resolved
  show ?thesis by simp
qed

text \<open>
  C10. None of the six operations of the client throws: each returns the body of the
  response when the call resolves, and when it rejects returns null, or for the health check
  an object with status \<open>unhealthy\<close> and the message of the error.
\<close>

theorem client_never_throws:
  "fst (getPersonalizedRecommendations svc userId watched liked videoMetadata limit excludeVideoIds)
     = Inr (case post_personalized svc
                   \<lparr>user_id = userId, watched_video_ids = watched, liked_video_ids = liked,
                    video_metadata = videoMetadata, body_limit = limit,
                    exclude_video_ids = excludeVideoIds\<rparr> of
              Inl e \<Rightarrow> None | Inr d \<Rightarrow> d)
   \<and> fst (getSimilarVideos svc videoId limit)
     = Inr (case get_similar svc videoId limit of Inl e \<Rightarrow> None | Inr d \<Rightarrow> d)
   \<and> fst (submitBatchEmbeddings svc vs)
     = Inr (case post_batch svc vs of Inl e \<Rightarrow> JNull | Inr d \<Rightarrow> d)
   \<and> fst (syncEmbeddings svc vs)
     = Inr (case post_sync svc vs of Inl e \<Rightarrow> JNull | Inr d \<Rightarrow> d)
   \<and> fst (deleteEmbedding svc videoId)
     = Inr (case delete_embedding svc videoId of Inl e \<Rightarrow> JNull | Inr d \<Rightarrow> d)
   \<and> fst (checkHealth svc)
     = Inr (case get_health svc of
              Inl e \<Rightarrow> JObj [(''status'', JStr ''unhealthy''), (''error'', JStr (error_message e))]
            | Inr d \<Rightarrow> d)"
  by (simp add: getPersonalizedRecommendations_def getSimilarVideos_def
      submitBatchEmbeddings_def syncEmbeddings_def deleteEmbedding_def checkHealth_def
      try_catch_total Let_def)

theorem client_never_throws_witness:
  "fst (getSimilarVideos svc_down ''V4'' 10) = Inr None
   \<and> fst (deleteEmbedding svc_down ''V4'') = Inr JNull
   \<and> fst (checkHealth svc_down)
       = Inr (JObj [(''status'', JStr ''unhealthy''),
                    (''error'', JStr ''timeout of 10000ms exceeded'')])
   \<and> fst (syncEmbeddings (svc_summary (JNum 1)) []) = Inr (JNum 1)"
  using client_never_throws[of svc_down] client_never_throws[of "svc_summary (JNum 1)" _ _ _ _ _ _ _ "[]"]
  by (simp add: svc_down_def svc_summary_def)

end
